theory Spec2Isabelle
  imports Complex_Main
begin

section \<open>ScreenCraft client SDKs: retry, backoff and error classification\<close>

text \<open>
  A shallow embedding of the request executor of the Go SDK (\<^verbatim>\<open>src/go/screencraft.go\<close>,
  \<^verbatim>\<open>src/go/errors.go\<close>, \<^verbatim>\<open>src/go/screenshot.go\<close> with the PDF and type
  declarations that follow them in the same files) and of the error factory and
  retry loop of the Node SDK (\<^verbatim>\<open>src/nodejs/src/errors.ts\<close> and the client class
  stored after \<^verbatim>\<open>src/nodejs/verify-setup.js\<close>).

  Conventions of the model:
  \<^item> Go's \<^verbatim>\<open>int\<close>, \<^verbatim>\<open>int64\<close> and \<^verbatim>\<open>time.Duration\<close> are \<open>int\<close>; a duration
    counts nanoseconds. The one multiplication that can leave the 64-bit range
    (\<^verbatim>\<open>time.Duration(seconds) * time.Second\<close>) wraps explicitly.
  \<^item> A \<^verbatim>\<open>float64\<close> held in an option struct is a finite number, an infinity or NaN.
  \<^item> A nil pointer or nil \<^verbatim>\<open>error\<close> is \<open>None\<close>.
  \<^item> The Go functions are modelled one by one, with the semantics of the Go language
    and its standard library. Each wrapper struct of \<^verbatim>\<open>errors.go\<close> embeds a
    \<^verbatim>\<open>*Error\<close>; the embedded field is named \<^verbatim>\<open>Error\<close> and hides the method
    \<^verbatim>\<open>Error()\<close> that would otherwise be promoted, so no pointer to a wrapper struct
    implements the interface \<^verbatim>\<open>error\<close>. Two things follow. A statement that uses
    such a pointer as an \<^verbatim>\<open>error\<close> does not type-check: a path that runs into one
    has no behaviour, and the model ends it with the outcome \<open>IllTyped\<close>. And
    \<^verbatim>\<open>errors.As\<close> panics when it is handed a non-nil error and a target whose type is
    a pointer to a wrapper struct: the model ends such a path with \<open>Panics\<close>.
  \<^item> The network, the context and the random source are an explicit environment that
    the retry loop reads; the calls made and the waits armed are recorded in a trace.
\<close>

subsection \<open>Floating-point values and times held in option structs\<close>

text \<open>
  A \<^verbatim>\<open>float64\<close>: a finite value (the real number it denotes; both zeros are \<open>0\<close>),
  an infinity or NaN. The comparisons of a \<^verbatim>\<open>float64\<close> with a finite constant follow
  IEEE 754: every ordered comparison with NaN is false and \<^verbatim>\<open>!=\<close> with NaN is true.
  For the constant \<^verbatim>\<open>0.1\<close>, which is no \<^verbatim>\<open>float64\<close>, the comparison of a
  \<^verbatim>\<open>float64\<close> with the real number and with the nearest \<^verbatim>\<open>float64\<close> agree, since
  no \<^verbatim>\<open>float64\<close> lies between the two.
\<close>

datatype float64 = Finite real | PosInf | NegInf | NaN

definition f_gt :: "float64 \<Rightarrow> real \<Rightarrow> bool" where
  "f_gt x k = (case x of Finite r \<Rightarrow> r > k | PosInf \<Rightarrow> True | NegInf \<Rightarrow> False | NaN \<Rightarrow> False)"

definition f_lt :: "float64 \<Rightarrow> real \<Rightarrow> bool" where
  "f_lt x k = (case x of Finite r \<Rightarrow> r < k | PosInf \<Rightarrow> False | NegInf \<Rightarrow> True | NaN \<Rightarrow> False)"

definition f_ne :: "float64 \<Rightarrow> real \<Rightarrow> bool" where
  "f_ne x k = (case x of Finite r \<Rightarrow> r \<noteq> k | PosInf \<Rightarrow> True | NegInf \<Rightarrow> True | NaN \<Rightarrow> True)"

definition isFinite :: "float64 \<Rightarrow> bool" where
  "isFinite x = (case x of Finite r \<Rightarrow> True | PosInf \<Rightarrow> False | NegInf \<Rightarrow> False | NaN \<Rightarrow> False)"

text \<open>
  A \<^verbatim>\<open>time.Time\<close>: the instant in Unix seconds, and whether \<^verbatim>\<open>Time.MarshalJSON\<close> of
  the standard library accepts the value (it returns an error for a time whose year lies
  outside \<open>0..9999\<close>).
\<close>

datatype Time = Time (unixSeconds: int) (marshalJSONSucceeds: bool)

subsection \<open>Values held in \<^verbatim>\<open>interface{}\<close> and option structs (types.go)\<close>

record Viewport =
  vp_Width :: int
  vp_Height :: int

record ScrollPosition =
  sp_X :: int
  sp_Y :: int

record Clip =
  clip_X :: int
  clip_Y :: int
  clip_Width :: int
  clip_Height :: int

record Cookie =
  ck_Name :: string
  ck_Value :: string
  ck_Domain :: string
  ck_Path :: string
  ck_Secure :: bool
  ck_HTTPOnly :: bool
  ck_SameSite :: string
  ck_Expires :: "Time option"

record Header =
  hd_Name :: string
  hd_Value :: string

record WebhookConfig =
  wh_URL :: string
  wh_Headers :: "(string \<times> string) list"
  wh_Secret :: string

record PDFMargin =
  Top :: string
  Right :: string
  Bottom :: string
  Left :: string

text \<open>
  The dynamic values stored in a \<^verbatim>\<open>map[string]interface{}\<close>: strings (also the
  string-kinded types \<^verbatim>\<open>Format\<close>, \<^verbatim>\<open>PDFFormat\<close>, \<^verbatim>\<open>WaitUntil\<close>,
  \<^verbatim>\<open>PDFOrientation\<close>), ints, floats, bools, nested maps, slices of cookies and headers,
  and the webhook's \<^verbatim>\<open>map[string]string\<close>.
\<close>

datatype any =
    AString string
  | AInt int
  | AFloat float64
  | ABool bool
  | ANil
  | AMap "string \<Rightarrow> any option"
  | AList "any list"
  | ACookies "Cookie list"
  | AHeaders "Header list"
  | AStringMap "(string \<times> string) list"

record ScreenshotOptions =
  URL :: string
  Format :: string
  Quality :: int
  FullPage :: bool
  Viewport :: "Viewport option"
  ScrollPosition :: "ScrollPosition option"
  Clip :: "Clip option"
  AcceptCookies :: bool
  Delay :: int
  WaitUntil :: string
  WaitForSelector :: string
  WaitForTimeout :: int
  Cookies :: "Cookie list"
  Headers :: "Header list"
  UserAgent :: string
  DeviceScaleFactor :: float64
  IsMobile :: bool
  HasTouch :: bool
  IsLandscape :: bool
  DarkMode :: bool
  BlockAds :: bool
  BlockTrackers :: bool
  BypassCSP :: bool
  JavaScript :: "bool option"
  Webhook :: "WebhookConfig option"

record PDFOptions =
  pdf_URL :: string
  pdf_Format :: string
  pdf_Orientation :: string
  pdf_Width :: string
  pdf_Height :: string
  pdf_Scale :: float64
  pdf_DisplayHeaderFooter :: bool
  pdf_HeaderTemplate :: string
  pdf_FooterTemplate :: string
  pdf_PrintBackground :: bool
  pdf_PreferCSSPageSize :: bool
  pdf_PageRanges :: string
  pdf_Margin :: "PDFMargin option"
  pdf_Viewport :: "Viewport option"
  pdf_AcceptCookies :: bool
  pdf_Delay :: int
  pdf_WaitUntil :: string
  pdf_WaitForSelector :: string
  pdf_WaitForTimeout :: int
  pdf_Cookies :: "Cookie list"
  pdf_Headers :: "Header list"
  pdf_UserAgent :: string
  pdf_DarkMode :: bool
  pdf_BlockAds :: bool
  pdf_BlockTrackers :: bool
  pdf_BypassCSP :: bool
  pdf_JavaScript :: "bool option"
  pdf_Webhook :: "WebhookConfig option"

record RateLimitInfo =
  Limit :: int
  Remaining :: int
  Reset :: int

record APIErrorDetails =
  api_Code :: string
  api_Message :: string
  api_Details :: "(string \<Rightarrow> any option) option"

record APIResponse =
  Success :: bool
  resp_Message :: string
  JobID :: string
  resp_Error :: "APIErrorDetails option"

subsection \<open>Error values (errors.go)\<close>

text \<open>
  The values of the interface \<^verbatim>\<open>error\<close>. \<open>Error\<close> is the struct \<^verbatim>\<open>Error\<close>, and a
  pointer to it (\<open>PlainError\<close>) is the one type of this package that implements
  \<^verbatim>\<open>error\<close>. \<open>ErrorString\<close> stands for every error value of another package
  (\<^verbatim>\<open>errors.New\<close>, \<^verbatim>\<open>fmt.Errorf\<close>, \<^verbatim>\<open>context\<close>, \<^verbatim>\<open>net/http\<close>); its chain
  holds no value of this package.
\<close>

datatype goerror =
    ErrorString string
  | PlainError Error
and Error = MkError (StatusCode: int) (Code: string) (Message: string)
    (Details: "(string \<Rightarrow> any option) option") (RequestID: string) (Err: "goerror option")

text \<open>
  The wrapper structs: each embeds a \<^verbatim>\<open>*Error\<close> and is a type of its own. The
  arguments of \<open>RateLimitError\<close> are Limit, Remaining, ResetAt (Unix seconds) and
  RetryAfter (nanoseconds). A pointer to a wrapper struct is a value, but not a value of
  \<^verbatim>\<open>error\<close>: its field \<^verbatim>\<open>Error\<close> hides the method of that name.
\<close>

datatype wrapper =
    AuthenticationError Error
  | RateLimitError Error int int int int
  | ValidationError Error string string
  | TimeoutError Error int
  | NetworkError Error
  | ServerError Error

text \<open>
  How the evaluation of a piece of the source ends: it returns a value, it panics with a
  message, or it reaches a statement that uses the given wrapper pointer where an
  \<^verbatim>\<open>error\<close> is required, which the Go type checker refuses.
\<close>

datatype 'a outcome = Returns 'a | Panics string | IllTyped wrapper

text \<open>Sequencing: the rest of a function body runs only when the call before it returns.\<close>

definition andThen :: "'a outcome \<Rightarrow> ('a \<Rightarrow> 'b outcome) \<Rightarrow> 'b outcome" where
  "andThen x f = (case x of Returns v \<Rightarrow> f v | Panics m \<Rightarrow> Panics m | IllTyped w \<Rightarrow> IllTyped w)"

definition ErrMissingAPIKey :: goerror where
  "ErrMissingAPIKey = ErrorString ''screencraft: API key is required''"

definition ErrMissingURL :: goerror where
  "ErrMissingURL = ErrorString ''screencraft: URL is required''"

definition ErrInvalidQuality :: goerror where
  "ErrInvalidQuality = ErrorString ''screencraft: quality must be between 0 and 100''"

definition ErrInvalidViewport :: goerror where
  "ErrInvalidViewport = ErrorString ''screencraft: viewport dimensions must be positive''"

text \<open>\<^verbatim>\<open>func (e *Error) IsRetryable() bool\<close>: a switch on the status code.\<close>

definition Error_IsRetryable :: "Error \<Rightarrow> bool" where
  "Error_IsRetryable e =
     (if StatusCode e = 429 \<or> StatusCode e = 503 \<or> StatusCode e = 502
         \<or> StatusCode e = 504 \<or> StatusCode e = 500
      then True else False)"

definition NewValidationError :: "string \<Rightarrow> string \<Rightarrow> string \<Rightarrow> wrapper" where
  "NewValidationError field message constraint =
     ValidationError (MkError 400 ''VALIDATION_ERROR'' message None '''' None) field constraint"

definition NewNetworkError :: "goerror \<Rightarrow> wrapper" where
  "NewNetworkError err =
     NetworkError (MkError 0 ''NETWORK_ERROR'' ''network error occurred'' None '''' (Some err))"

text \<open>
  The selector \<^verbatim>\<open>x.Error\<close> on a wrapper struct denotes its embedded \<^verbatim>\<open>*Error\<close>
  field; \<^verbatim>\<open>NewValidationError(...).Error\<close> returned as an \<^verbatim>\<open>error\<close> is therefore a
  plain \<^verbatim>\<open>*Error\<close>.
\<close>

fun fieldError :: "wrapper \<Rightarrow> goerror" where
  "fieldError (AuthenticationError e) = PlainError e"
| "fieldError (RateLimitError e l r t a) = PlainError e"
| "fieldError (ValidationError e f k) = PlainError e"
| "fieldError (TimeoutError e d) = PlainError e"
| "fieldError (NetworkError e) = PlainError e"
| "fieldError (ServerError e) = PlainError e"

text \<open>
  \<^verbatim>\<open>func (e *Error) Unwrap() error { return e.Err }\<close>: the next element of the chain of
  a \<^verbatim>\<open>*Error\<close> is its \<^verbatim>\<open>Err\<close> field.
\<close>

fun Unwrap :: "goerror \<Rightarrow> goerror option" where
  "Unwrap (ErrorString s) = None"
| "Unwrap (PlainError e) = Err e"

lemma size_Err: "Err e = Some x \<Longrightarrow> size x < size e"
  by (cases e) auto

lemma Unwrap_size: "Unwrap e = Some x \<Longrightarrow> size x < size e"
  by (cases e) (auto dest: size_Err)

text \<open>
  \<^verbatim>\<open>errors.As(err, &target)\<close> of the standard library, for a target of type
  \<^verbatim>\<open>*Error\<close>, a type that implements \<^verbatim>\<open>error\<close>: false for a nil error; otherwise
  walk the chain of \<^verbatim>\<open>err\<close> through \<^verbatim>\<open>Unwrap\<close> and stop at the first value whose
  dynamic type is \<^verbatim>\<open>*Error\<close>. The result is the value the target is set to.
\<close>

fun as_Error :: "goerror \<Rightarrow> Error option" where
  "as_Error (PlainError e) = Some e"
| "as_Error (ErrorString s) = None"

function errors_As_Error :: "goerror option \<Rightarrow> Error option" where
  "errors_As_Error None = None"
| "errors_As_Error (Some err) =
     (case as_Error err of Some v \<Rightarrow> Some v | None \<Rightarrow> errors_As_Error (Unwrap err))"
  by pat_completeness auto
termination
  by (relation "measure (\<lambda>eo. case eo of None \<Rightarrow> 0 | Some e \<Rightarrow> Suc (size e))")
     (auto split: option.splits dest: Unwrap_size)

text \<open>
  \<^verbatim>\<open>errors.As(err, &target)\<close> for a target whose type is a pointer to a wrapper struct
  (\<^verbatim>\<open>*AuthenticationError\<close>, \<^verbatim>\<open>*RateLimitError\<close>, \<^verbatim>\<open>*ValidationError\<close>,
  \<^verbatim>\<open>*TimeoutError\<close>, \<^verbatim>\<open>*NetworkError\<close>, \<^verbatim>\<open>*ServerError\<close>). The library returns
  false for a nil error (since Go 1.20 the test for nil comes first); for any other error
  it inspects the target's type before it walks the chain and panics, because that type is
  no interface and does not implement \<^verbatim>\<open>error\<close>. The call never sets the target.
\<close>

definition targetPanic :: string where
  "targetPanic = ''errors: *target must be interface or implement error''"

fun errors_As_wrapper :: "goerror option \<Rightarrow> wrapper option outcome" where
  "errors_As_wrapper None = Returns None"
| "errors_As_wrapper (Some err) = Panics targetPanic"

text \<open>The six predicates: each declares a wrapper pointer and returns what \<^verbatim>\<open>errors.As\<close> does.\<close>

definition IsAuthenticationError :: "goerror option \<Rightarrow> bool outcome" where
  "IsAuthenticationError err = andThen (errors_As_wrapper err) (\<lambda>authErr. Returns (authErr \<noteq> None))"

definition IsRateLimitError :: "goerror option \<Rightarrow> bool outcome" where
  "IsRateLimitError err = andThen (errors_As_wrapper err) (\<lambda>rateErr. Returns (rateErr \<noteq> None))"

definition IsValidationError :: "goerror option \<Rightarrow> bool outcome" where
  "IsValidationError err = andThen (errors_As_wrapper err) (\<lambda>valErr. Returns (valErr \<noteq> None))"

definition IsTimeoutError :: "goerror option \<Rightarrow> bool outcome" where
  "IsTimeoutError err = andThen (errors_As_wrapper err) (\<lambda>timeoutErr. Returns (timeoutErr \<noteq> None))"

definition IsNetworkError :: "goerror option \<Rightarrow> bool outcome" where
  "IsNetworkError err = andThen (errors_As_wrapper err) (\<lambda>netErr. Returns (netErr \<noteq> None))"

definition IsServerError :: "goerror option \<Rightarrow> bool outcome" where
  "IsServerError err = andThen (errors_As_wrapper err) (\<lambda>serverErr. Returns (serverErr \<noteq> None))"

text \<open>
  \<^verbatim>\<open>func IsRetryable(err error) bool\<close>: the four \<^verbatim>\<open>errors.As\<close> tests in the source's
  order. The first has a \<^verbatim>\<open>*Error\<close> target; the other three (\<^verbatim>\<open>*RateLimitError\<close>,
  \<^verbatim>\<open>*NetworkError\<close>, \<^verbatim>\<open>*TimeoutError\<close>) have wrapper targets. There is no test for
  \<^verbatim>\<open>*ServerError\<close>.
\<close>

definition IsRetryable :: "goerror option \<Rightarrow> bool outcome" where
  "IsRetryable err =
     (case errors_As_Error err of
        Some scErr \<Rightarrow> Returns (Error_IsRetryable scErr)
      | None \<Rightarrow>
          andThen (errors_As_wrapper err) (\<lambda>rateErr.
            if rateErr \<noteq> None then Returns True
            else andThen (errors_As_wrapper err) (\<lambda>netErr.
              if netErr \<noteq> None then Returns True
              else andThen (errors_As_wrapper err) (\<lambda>timeoutErr.
                if timeoutErr \<noteq> None then Returns True
                else Returns False))))"

text \<open>
  \<^verbatim>\<open>func GetRetryAfter(err error) time.Duration\<close>: \<^verbatim>\<open>errors.As\<close> with a
  \<^verbatim>\<open>*RateLimitError\<close> target, then the field \<^verbatim>\<open>RetryAfter\<close> of what it found, or 0.
\<close>

definition GetRetryAfter :: "goerror option \<Rightarrow> int outcome" where
  "GetRetryAfter err =
     andThen (errors_As_wrapper err) (\<lambda>rateErr.
       case rateErr of
         Some (RateLimitError e l r t retryAfter) \<Rightarrow> Returns retryAfter
       | _ \<Rightarrow> Returns 0)"

subsection \<open>Decimal parsing (\<^verbatim>\<open>strconv\<close> of the Go standard library)\<close>

text \<open>
  \<^verbatim>\<open>strconv.ParseUint(s, 10, 64)\<close> reads left to right: a byte that is no decimal
  digit is a syntax error (value 0); a value that leaves the 64-bit range is a range
  error, reported at once with the largest value.
\<close>

datatype numerr = NoError | ErrSyntax | ErrRange

definition isDigit :: "char \<Rightarrow> bool" where
  "isDigit ch = (48 \<le> (of_char ch :: nat) \<and> (of_char ch :: nat) \<le> 57)"

definition maxUint64 :: nat where
  "maxUint64 = 18446744073709551615"

fun parseUintLoop :: "nat \<Rightarrow> string \<Rightarrow> nat \<times> numerr" where
  "parseUintLoop n [] = (n, NoError)"
| "parseUintLoop n (ch # cs) =
     (if \<not> isDigit ch then (0, ErrSyntax)
      else if n \<ge> maxUint64 div 10 + 1 then (maxUint64, ErrRange)
      else (let n1 = n * 10 + (of_char ch - 48)
            in if n1 > maxUint64 then (maxUint64, ErrRange) else parseUintLoop n1 cs))"

definition ParseUint :: "string \<Rightarrow> nat \<times> numerr" where
  "ParseUint s = (if s = [] then (0, ErrSyntax) else parseUintLoop 0 s)"

text \<open>
  \<^verbatim>\<open>strconv.ParseInt(s, 10, 64)\<close>: an optional sign, then \<^verbatim>\<open>ParseUint\<close>; a value
  outside the signed range is clamped and reported as a range error.
\<close>

definition ParseInt :: "string \<Rightarrow> int \<times> numerr" where
  "ParseInt s =
     (if s = [] then (0, ErrSyntax)
      else
        (let neg = (hd s = CHR ''-'');
             s1 = (if hd s = CHR ''+'' \<or> hd s = CHR ''-'' then tl s else s);
             (un, err) = ParseUint s1;
             cutoff = (9223372036854775808 :: nat)
         in if err = ErrSyntax then (0, ErrSyntax)
            else if \<not> neg \<and> un \<ge> cutoff then (int cutoff - 1, ErrRange)
            else if neg \<and> un > cutoff then (- int cutoff, ErrRange)
            else (if neg then - int un else int un, NoError)))"

text \<open>
  \<^verbatim>\<open>strconv.Atoi\<close> on a 64-bit platform: its fast path for short strings computes what
  \<^verbatim>\<open>ParseInt(s, 10, 0)\<close> does.
\<close>

definition Atoi :: "string \<Rightarrow> int \<times> numerr" where
  "Atoi s = ParseInt s"

subsection \<open>Responses, the client and the rate-limit snapshot (screencraft.go)\<close>

text \<open>
  A response body is either unreadable (\<^verbatim>\<open>io.ReadAll\<close> fails) or a byte string;
  the byte string comes with what \<^verbatim>\<open>json.Unmarshal\<close> into an \<^verbatim>\<open>APIResponse\<close> makes of
  it (\<open>None\<close>: it reports an error). \<open>r_Header\<close> maps a header name, spelled as the
  source spells it, to the first value of that header.
\<close>

datatype body = ReadFails string | Bytes string "APIResponse option"

record Response =
  r_StatusCode :: int
  r_Header :: "string \<Rightarrow> string option"
  r_Body :: body

definition Header_Get :: "(string \<Rightarrow> string option) \<Rightarrow> string \<Rightarrow> string" where
  "Header_Get h key = (case h key of None \<Rightarrow> [] | Some v \<Rightarrow> v)"

definition Second :: int where
  "Second = 1000000000"

text \<open>Two's-complement wrap-around of a 64-bit product.\<close>

definition wrap64 :: "int \<Rightarrow> int" where
  "wrap64 x = (x + 2 ^ 63) mod 2 ^ 64 - 2 ^ 63"

text \<open>
  The fields of \<^verbatim>\<open>Client\<close> that the executor reads or writes. The HTTP client, the
  logger and the mutex are not part of the state: the network is the environment
  below, logging has no effect on the result, and calls are modelled one at a time.
\<close>

record Client =
  apiKey :: string
  baseURL :: string
  maxRetries :: int
  retryWaitMin :: int
  retryWaitMax :: int
  userAgent :: string
  debug :: bool
  lastRateLimit :: "RateLimitInfo option"

definition DefaultBaseURL :: string where
  "DefaultBaseURL = ''https://screencraftapi.com/v1''"

definition DefaultMaxRetries :: int where
  "DefaultMaxRetries = 3"

definition DefaultRetryWaitMin :: int where
  "DefaultRetryWaitMin = 1 * Second"

definition DefaultRetryWaitMax :: int where
  "DefaultRetryWaitMax = 30 * Second"

definition New :: "string \<Rightarrow> (Client \<Rightarrow> Client) list \<Rightarrow> Client" where
  "New key opts =
     fold (\<lambda>opt c. opt c) opts
       \<lparr>apiKey = key, baseURL = DefaultBaseURL, maxRetries = DefaultMaxRetries,
        retryWaitMin = DefaultRetryWaitMin, retryWaitMax = DefaultRetryWaitMax,
        userAgent = ''screencraft-go/1.0.0'', debug = False, lastRateLimit = None\<rparr>"

definition WithBaseURL :: "string \<Rightarrow> Client \<Rightarrow> Client" where
  "WithBaseURL url c = c\<lparr>baseURL := url\<rparr>"

definition WithMaxRetries :: "int \<Rightarrow> Client \<Rightarrow> Client" where
  "WithMaxRetries n c = c\<lparr>maxRetries := n\<rparr>"

definition WithRetryWait :: "int \<Rightarrow> int \<Rightarrow> Client \<Rightarrow> Client" where
  "WithRetryWait mn mx c = c\<lparr>retryWaitMin := mn, retryWaitMax := mx\<rparr>"

definition GetRateLimitInfo :: "Client \<Rightarrow> RateLimitInfo option" where
  "GetRateLimitInfo c = lastRateLimit c"

text \<open>
  \<^verbatim>\<open>parseRateLimitHeaders\<close>: the three parses drop their errors, so an absent header
  or one that is no number counts as 0; the snapshot is replaced only when one value is
  positive.
\<close>

definition parseRateLimitHeaders :: "Client \<Rightarrow> Response \<Rightarrow> Client" where
  "parseRateLimitHeaders c resp =
     (let limit = fst (Atoi (Header_Get (r_Header resp) ''X-RateLimit-Limit''));
          remaining = fst (Atoi (Header_Get (r_Header resp) ''X-RateLimit-Remaining''));
          resetUnix = fst (ParseInt (Header_Get (r_Header resp) ''X-RateLimit-Reset''))
      in if limit > 0 \<or> remaining > 0 \<or> resetUnix > 0
         then c\<lparr>lastRateLimit := Some \<lparr>Limit = limit, Remaining = remaining, Reset = resetUnix\<rparr>\<rparr>
         else c)"

text \<open>
  \<^verbatim>\<open>parseErrorResponse\<close>, declared to return \<^verbatim>\<open>error\<close>. The two early returns
  (unreadable body, body that is no JSON) and the final \<^verbatim>\<open>return baseErr\<close> give a
  plain \<^verbatim>\<open>*Error\<close>. The four \<^verbatim>\<open>return\<close> statements inside the switch hand a
  pointer to a wrapper struct to the result of type \<^verbatim>\<open>error\<close>; they do not
  type-check, and the model records the struct that the statement builds.
\<close>

definition detailString :: "APIErrorDetails option \<Rightarrow> string \<Rightarrow> string" where
  "detailString d key =
     (case d of
        None \<Rightarrow> []
      | Some ed \<Rightarrow>
          (case api_Details ed of
             None \<Rightarrow> []
           | Some m \<Rightarrow> (case m key of Some (AString v) \<Rightarrow> v | _ \<Rightarrow> [])))"

definition parseErrorResponse :: "Response \<Rightarrow> goerror outcome" where
  "parseErrorResponse resp =
     (case r_Body resp of
        ReadFails m \<Rightarrow>
          Returns (PlainError (MkError (r_StatusCode resp) [] ''failed to read error response'' None []
            (Some (ErrorString m))))
      | Bytes raw decoded \<Rightarrow>
          (case decoded of
             None \<Rightarrow> Returns (PlainError (MkError (r_StatusCode resp) [] raw None [] None))
           | Some apiResp \<Rightarrow>
               (let rid = Header_Get (r_Header resp) ''X-Request-ID'';
                    baseErr =
                      (case resp_Error apiResp of
                         Some d \<Rightarrow>
                           MkError (r_StatusCode resp) (api_Code d) (api_Message d) (api_Details d) rid None
                       | None \<Rightarrow>
                           if resp_Message apiResp \<noteq> []
                           then MkError (r_StatusCode resp) [] (resp_Message apiResp) None rid None
                           else MkError (r_StatusCode resp) [] [] None rid None)
                in if r_StatusCode resp = 401 then IllTyped (AuthenticationError baseErr)
                   else if r_StatusCode resp = 429 then
                     (let ra = Header_Get (r_Header resp) ''Retry-After'';
                          retryAfter =
                            (if ra \<noteq> [] then
                               (case Atoi ra of
                                  (seconds, NoError) \<Rightarrow> wrap64 (seconds * Second)
                                | _ \<Rightarrow> 0)
                             else 0);
                          limit = fst (Atoi (Header_Get (r_Header resp) ''X-RateLimit-Limit''));
                          remaining = fst (Atoi (Header_Get (r_Header resp) ''X-RateLimit-Remaining''));
                          resetUnix = fst (ParseInt (Header_Get (r_Header resp) ''X-RateLimit-Reset''))
                      in IllTyped (RateLimitError baseErr limit remaining resetUnix retryAfter))
                   else if r_StatusCode resp = 400 then
                     IllTyped (ValidationError baseErr (detailString (resp_Error apiResp) ''field'')
                       (detailString (resp_Error apiResp) ''constraint''))
                   else if r_StatusCode resp = 500 \<or> r_StatusCode resp = 502
                        \<or> r_StatusCode resp = 503 \<or> r_StatusCode resp = 504
                   then IllTyped (ServerError baseErr)
                   else Returns (PlainError baseErr))))"

subsection \<open>Backoff (screencraft.go, \<^verbatim>\<open>calculateBackoff\<close>)\<close>

text \<open>\<^verbatim>\<open>math.Pow(2, float64(k))\<close> for an integer \<open>k\<close>.\<close>

definition Pow2 :: "int \<Rightarrow> real" where
  "Pow2 k = (if 0 \<le> k then 2 ^ nat k else 1 / 2 ^ nat (- k))"

text \<open>The conversion \<^verbatim>\<open>time.Duration(f)\<close> of a float: truncation toward zero.\<close>

definition toDuration :: "real \<Rightarrow> int" where
  "toDuration f = (if 0 \<le> f then \<lfloor>f\<rfloor> else \<lceil>f\<rceil>)"

text \<open>
  \<^verbatim>\<open>calculateBackoff\<close> starts with \<^verbatim>\<open>GetRetryAfter(lastErr)\<close>, so it panics where that
  call does: for every \<^verbatim>\<open>lastErr\<close> that is not nil. The arithmetic after it runs in
  \<^verbatim>\<open>float64\<close>: \<open>fl\<close> is the rounding of an exact result to the nearest \<^verbatim>\<open>float64\<close>,
  applied once per conversion and per operation of the source (the model assumes nothing
  about it; infinities, NaN and a conversion to \<^verbatim>\<open>time.Duration\<close> that leaves the 64-bit
  range are not modelled), and \<open>rnd\<close> is the value that \<^verbatim>\<open>rand.Float64()\<close> returns
  for this call, a number in \<open>[0, 1)\<close>.
\<close>

definition calculateBackoff ::
  "Client \<Rightarrow> (real \<Rightarrow> real) \<Rightarrow> int \<Rightarrow> goerror option \<Rightarrow> real \<Rightarrow> int outcome" where
  "calculateBackoff c fl attempt lastErr rnd =
     andThen (GetRetryAfter lastErr) (\<lambda>retryAfter.
       if retryAfter > 0 then Returns retryAfter
       else
         (let backoff0 = fl (fl (real_of_int (retryWaitMin c)) * Pow2 (attempt - 1));
              backoff = (if backoff0 > fl (real_of_int (retryWaitMax c))
                         then fl (real_of_int (retryWaitMax c)) else backoff0);
              jitter = fl (fl (backoff * 0.25) * rnd)
          in Returns (toDuration (fl (backoff + jitter)))))"

subsection \<open>JSON encoding of a request body (\<^verbatim>\<open>encoding/json\<close> of the Go standard library)\<close>

text \<open>
  Whether \<^verbatim>\<open>json.Marshal\<close> succeeds on a value. It fails for a \<^verbatim>\<open>float64\<close> that is
  NaN or an infinity and for a \<^verbatim>\<open>time.Time\<close> that \<^verbatim>\<open>Time.MarshalJSON\<close> refuses (a
  cookie's \<^verbatim>\<open>Expires\<close>, encoded when the pointer is not nil); strings, integers,
  booleans and maps and slices of values that can be encoded are encoded.
\<close>

definition cookieMarshals :: "Cookie \<Rightarrow> bool" where
  "cookieMarshals ck = (case ck_Expires ck of None \<Rightarrow> True | Some t \<Rightarrow> marshalJSONSucceeds t)"

primrec anyMarshals :: "any \<Rightarrow> bool" where
  "anyMarshals (AString s) = True"
| "anyMarshals (AInt i) = True"
| "anyMarshals (AFloat f) = isFinite f"
| "anyMarshals (ABool b) = True"
| "anyMarshals ANil = True"
| "anyMarshals (AMap m) =
     (\<forall>k. case map_option anyMarshals (m k) of None \<Rightarrow> True | Some ok \<Rightarrow> ok)"
| "anyMarshals (AList xs) = list_all (\<lambda>ok. ok) (map anyMarshals xs)"
| "anyMarshals (ACookies cs) = list_all cookieMarshals cs"
| "anyMarshals (AHeaders hs) = True"
| "anyMarshals (AStringMap kvs) = True"

definition jsonMarshals :: "(string \<Rightarrow> any option) \<Rightarrow> bool" where
  "jsonMarshals body = anyMarshals (AMap body)"

text \<open>
  Whether what a map binds to one key can be encoded: an absent key has nothing to encode.
\<close>

definition optMarshals :: "any option \<Rightarrow> bool" where
  "optMarshals xo = (case xo of None \<Rightarrow> True | Some v \<Rightarrow> anyMarshals v)"

subsection \<open>The retry loop (screencraft.go, \<^verbatim>\<open>doRequest\<close>)\<close>

text \<open>
  The environment of one call of \<^verbatim>\<open>doRequest\<close>:
  \<^item> \<open>newRequestErr\<close>: the error of \<^verbatim>\<open>http.NewRequestWithContext\<close>, if it fails;
  \<^item> \<open>httpDo k\<close>: what \<^verbatim>\<open>c.httpClient.Do(req)\<close> returns in loop iteration \<open>k\<close>, a
    transport error or a response;
  \<^item> \<open>ctxDone k\<close>: whether, in the \<^verbatim>\<open>select\<close> before iteration \<open>k\<close>, the context is
    done before the timer fires, and then the text of \<^verbatim>\<open>ctx.Err()\<close>;
  \<^item> \<open>randFloat k\<close>: the value of \<^verbatim>\<open>rand.Float64()\<close> drawn before iteration \<open>k\<close>;
  \<^item> \<open>roundFloat\<close>: the rounding of \<^verbatim>\<open>float64\<close> arithmetic.

  The trace counts the calls of \<^verbatim>\<open>httpClient.Do\<close> and lists the durations handed to
  \<^verbatim>\<open>time.After\<close>. Logging is not modelled.
\<close>

datatype DoResult = DoError string | DoResponse Response

record Env =
  newRequestErr :: "string option"
  httpDo :: "nat \<Rightarrow> DoResult"
  ctxDone :: "nat \<Rightarrow> string option"
  randFloat :: "nat \<Rightarrow> real"
  roundFloat :: "real \<Rightarrow> real"

record Trace =
  calls :: nat
  waits :: "int list"

text \<open>
  What one run of the loop body does to the loop: it leaves \<^verbatim>\<open>doRequest\<close> (with the
  values returned, a panic, or at a statement that does not type-check), or it reaches
  \<^verbatim>\<open>continue\<close> with \<^verbatim>\<open>lastErr\<close> set.
\<close>

datatype step =
    Return "(Response option \<times> goerror option) outcome" Client Trace
  | Continue goerror Client Trace

text \<open>
  The \<^verbatim>\<open>if attempt > 0 { ... }\<close> block: \<^verbatim>\<open>calculateBackoff\<close>, then the \<^verbatim>\<open>select\<close>
  on the context and the timer. A panic of \<^verbatim>\<open>calculateBackoff\<close> ends the block before
  the \<^verbatim>\<open>select\<close>: no timer is armed and the context is not consulted.
\<close>

definition waitBeforeRetry ::
  "Client \<Rightarrow> Env \<Rightarrow> int \<Rightarrow> goerror option \<Rightarrow> Trace \<Rightarrow> goerror option outcome \<times> Trace" where
  "waitBeforeRetry c env attempt lastErr tr =
     (if attempt > 0 then
        (case calculateBackoff c (roundFloat env) attempt lastErr (randFloat env (nat attempt)) of
           Panics m \<Rightarrow> (Panics m, tr)
         | IllTyped w \<Rightarrow> (IllTyped w, tr)
         | Returns waitTime \<Rightarrow>
             (let tr1 = tr\<lparr>waits := waits tr @ [waitTime]\<rparr>
              in case ctxDone env (nat attempt) of
                   Some cause \<Rightarrow> (Returns (Some (ErrorString cause)), tr1)
                 | None \<Rightarrow> (Returns None, tr1)))
      else (Returns None, tr))"

text \<open>
  The rest of the loop body: build the request, send it, classify the outcome. After a
  transport error the source assigns \<^verbatim>\<open>NewNetworkError(err)\<close>, a \<^verbatim>\<open>*NetworkError\<close>,
  to \<^verbatim>\<open>lastErr\<close> of type \<^verbatim>\<open>error\<close>: that statement does not type-check. In
  \<^verbatim>\<open>!IsRetryable(lastErr) || attempt == c.maxRetries\<close> the call of \<^verbatim>\<open>IsRetryable\<close> is
  evaluated first.
\<close>

definition sendOnce :: "Client \<Rightarrow> Env \<Rightarrow> int \<Rightarrow> Trace \<Rightarrow> step" where
  "sendOnce c env attempt tr =
     (case newRequestErr env of
        Some m \<Rightarrow>
          Return (Returns (None, Some (ErrorString (''screencraft: failed to create request: '' @ m))))
            c tr
      | None \<Rightarrow>
          (let tr1 = tr\<lparr>calls := Suc (calls tr)\<rparr>
           in case httpDo env (nat attempt) of
                DoError m \<Rightarrow> Return (IllTyped (NewNetworkError (ErrorString m))) c tr1
              | DoResponse resp \<Rightarrow>
                  (let c1 = parseRateLimitHeaders c resp
                   in if r_StatusCode resp \<ge> 400 then
                        (case parseErrorResponse resp of
                           Panics m \<Rightarrow> Return (Panics m) c1 tr1
                         | IllTyped w \<Rightarrow> Return (IllTyped w) c1 tr1
                         | Returns lastErr \<Rightarrow>
                             (case IsRetryable (Some lastErr) of
                                Panics m \<Rightarrow> Return (Panics m) c1 tr1
                              | IllTyped w \<Rightarrow> Return (IllTyped w) c1 tr1
                              | Returns retryable \<Rightarrow>
                                  if \<not> retryable \<or> attempt = maxRetries c
                                  then Return (Returns (None, Some lastErr)) c1 tr1
                                  else Continue lastErr c1 tr1))
                      else Return (Returns (Some resp, None)) c1 tr1)))"

lemma parseRateLimitHeaders_maxRetries:
  "maxRetries (parseRateLimitHeaders c resp) = maxRetries c"
  by (simp add: parseRateLimitHeaders_def Let_def)

lemma sendOnce_Continue_maxRetries:
  "sendOnce c env attempt tr = Continue e c' tr' \<Longrightarrow> maxRetries c' = maxRetries c"
  by (auto simp: sendOnce_def Let_def parseRateLimitHeaders_maxRetries
      split: option.splits DoResult.splits if_splits outcome.splits)

text \<open>\<^verbatim>\<open>for attempt := 0; attempt <= c.maxRetries; attempt++ { ... }; return nil, lastErr\<close>\<close>

function doLoop ::
  "Client \<Rightarrow> Env \<Rightarrow> int \<Rightarrow> goerror option \<Rightarrow> Trace
   \<Rightarrow> (Response option \<times> goerror option) outcome \<times> Client \<times> Trace" where
  "doLoop c env attempt lastErr tr =
     (if attempt \<le> maxRetries c then
        (case waitBeforeRetry c env attempt lastErr tr of
           (Panics m, tr1) \<Rightarrow> (Panics m, c, tr1)
         | (IllTyped w, tr1) \<Rightarrow> (IllTyped w, c, tr1)
         | (Returns (Some ctxErr), tr1) \<Rightarrow> (Returns (None, Some ctxErr), c, tr1)
         | (Returns None, tr1) \<Rightarrow>
             (case sendOnce c env attempt tr1 of
                Return r c' tr' \<Rightarrow> (r, c', tr')
              | Continue e c' tr' \<Rightarrow> doLoop c' env (attempt + 1) (Some e) tr'))
      else (Returns (None, lastErr), c, tr))"
  by pat_completeness auto
termination
  by (relation "measure (\<lambda>(c, env, attempt, lastErr, tr). nat (maxRetries c + 1 - attempt))")
     (auto dest: sendOnce_Continue_maxRetries)

declare doLoop.simps [simp del]

definition noTrace :: Trace where
  "noTrace = \<lparr>calls = 0, waits = []\<rparr>"

text \<open>
  \<^verbatim>\<open>doRequest\<close>: the check of the API key, \<^verbatim>\<open>json.Marshal(body)\<close> (the operations of
  this package always pass a body), then the loop.
\<close>

definition doRequest ::
  "Client \<Rightarrow> Env \<Rightarrow> (string \<Rightarrow> any option)
   \<Rightarrow> (Response option \<times> goerror option) outcome \<times> Client \<times> Trace" where
  "doRequest c env body =
     (if apiKey c = [] then (Returns (None, Some ErrMissingAPIKey), c, noTrace)
      else if \<not> jsonMarshals body
      then (Returns (None, Some (ErrorString ''screencraft: failed to marshal request body'')),
            c, noTrace)
      else doLoop c env 0 None noTrace)"

subsection \<open>Local validation (screencraft.go)\<close>

definition ValidateScreenshotOptions :: "ScreenshotOptions option \<Rightarrow> goerror option" where
  "ValidateScreenshotOptions opts =
     (case opts of
        None \<Rightarrow> Some ErrMissingURL
      | Some v \<Rightarrow>
          if URL v = [] then Some ErrMissingURL
          else if Quality v < 0 \<or> Quality v > 100 then Some ErrInvalidQuality
          else
            (case Viewport v of
               Some vp \<Rightarrow>
                 if vp_Width vp < 0 \<or> vp_Height vp < 0 then Some ErrInvalidViewport else None
             | None \<Rightarrow> None))"

text \<open>
  \<^verbatim>\<open>opts.Scale != 0 && (opts.Scale < 0.1 || opts.Scale > 2.0)\<close> on a \<^verbatim>\<open>float64\<close>: for
  NaN the first test is true and the two comparisons are false, so NaN is not rejected.
\<close>

definition ValidatePDFOptions :: "PDFOptions option \<Rightarrow> goerror option" where
  "ValidatePDFOptions opts =
     (case opts of
        None \<Rightarrow> Some ErrMissingURL
      | Some v \<Rightarrow>
          if pdf_URL v = [] then Some ErrMissingURL
          else if f_ne (pdf_Scale v) 0 \<and> (f_lt (pdf_Scale v) 0.1 \<or> f_gt (pdf_Scale v) 2.0) then
            Some (fieldError
              (NewValidationError ''scale'' ''scale must be between 0.1 and 2.0'' ''range''))
          else
            (case pdf_Viewport v of
               Some vp \<Rightarrow>
                 if vp_Width vp < 0 \<or> vp_Height vp < 0 then Some ErrInvalidViewport else None
             | None \<Rightarrow> None))"

subsection \<open>Request bodies (screenshot.go, pdf.go)\<close>

text \<open>
  The map literal and the \<^verbatim>\<open>if ... { req[key] = value }\<close> statements in the source's
  order; \<^verbatim>\<open>len(m) > 0\<close> of a map is \<open>m \<noteq> Map.empty\<close>.
\<close>

definition buildViewport :: "Viewport \<Rightarrow> (string \<Rightarrow> any option)" where
  "buildViewport vp =
     (let viewport = Map.empty;
          viewport = (if vp_Width vp > 0 then viewport(''width'' \<mapsto> AInt (vp_Width vp)) else viewport);
          viewport = (if vp_Height vp > 0 then viewport(''height'' \<mapsto> AInt (vp_Height vp)) else viewport)
      in viewport)"

definition buildWebhook :: "WebhookConfig \<Rightarrow> (string \<Rightarrow> any option)" where
  "buildWebhook wh =
     (let webhook = [''url'' \<mapsto> AString (wh_URL wh)];
          webhook = (if length (wh_Headers wh) > 0
                     then webhook(''headers'' \<mapsto> AStringMap (wh_Headers wh)) else webhook);
          webhook = (if wh_Secret wh \<noteq> [] then webhook(''secret'' \<mapsto> AString (wh_Secret wh))
                     else webhook)
      in webhook)"

definition buildScreenshotRequest :: "ScreenshotOptions \<Rightarrow> (string \<Rightarrow> any option)" where
  "buildScreenshotRequest opts =
     (let req = [''url'' \<mapsto> AString (URL opts)];
          req = (if Format opts \<noteq> [] then req(''format'' \<mapsto> AString (Format opts)) else req);
          req = (if Quality opts > 0 then req(''quality'' \<mapsto> AInt (Quality opts)) else req);
          req = (if FullPage opts then req(''fullPage'' \<mapsto> ABool True) else req);
          req = (case Viewport opts of
                   Some vp \<Rightarrow>
                     if buildViewport vp \<noteq> Map.empty
                     then req(''viewport'' \<mapsto> AMap (buildViewport vp)) else req
                 | None \<Rightarrow> req);
          req = (case ScrollPosition opts of
                   Some sp \<Rightarrow>
                     req(''scrollPosition'' \<mapsto> AMap [''x'' \<mapsto> AInt (sp_X sp), ''y'' \<mapsto> AInt (sp_Y sp)])
                 | None \<Rightarrow> req);
          req = (case Clip opts of
                   Some cl \<Rightarrow>
                     req(''clip'' \<mapsto> AMap [''x'' \<mapsto> AInt (clip_X cl), ''y'' \<mapsto> AInt (clip_Y cl),
                       ''width'' \<mapsto> AInt (clip_Width cl), ''height'' \<mapsto> AInt (clip_Height cl)])
                 | None \<Rightarrow> req);
          req = (if AcceptCookies opts then req(''acceptCookies'' \<mapsto> ABool True) else req);
          req = (if Delay opts > 0 then req(''delay'' \<mapsto> AInt (Delay opts)) else req);
          req = (if WaitUntil opts \<noteq> [] then req(''waitUntil'' \<mapsto> AString (WaitUntil opts)) else req);
          req = (if WaitForSelector opts \<noteq> []
                 then req(''waitForSelector'' \<mapsto> AString (WaitForSelector opts)) else req);
          req = (if WaitForTimeout opts > 0
                 then req(''waitForTimeout'' \<mapsto> AInt (WaitForTimeout opts)) else req);
          req = (if length (Cookies opts) > 0 then req(''cookies'' \<mapsto> ACookies (Cookies opts)) else req);
          req = (if length (Headers opts) > 0 then req(''headers'' \<mapsto> AHeaders (Headers opts)) else req);
          req = (if UserAgent opts \<noteq> [] then req(''userAgent'' \<mapsto> AString (UserAgent opts)) else req);
          req = (if f_gt (DeviceScaleFactor opts) 0
                 then req(''deviceScaleFactor'' \<mapsto> AFloat (DeviceScaleFactor opts)) else req);
          req = (if IsMobile opts then req(''isMobile'' \<mapsto> ABool True) else req);
          req = (if HasTouch opts then req(''hasTouch'' \<mapsto> ABool True) else req);
          req = (if IsLandscape opts then req(''isLandscape'' \<mapsto> ABool True) else req);
          req = (if DarkMode opts then req(''darkMode'' \<mapsto> ABool True) else req);
          req = (if BlockAds opts then req(''blockAds'' \<mapsto> ABool True) else req);
          req = (if BlockTrackers opts then req(''blockTrackers'' \<mapsto> ABool True) else req);
          req = (if BypassCSP opts then req(''bypassCSP'' \<mapsto> ABool True) else req);
          req = (case JavaScript opts of Some b \<Rightarrow> req(''javascript'' \<mapsto> ABool b) | None \<Rightarrow> req);
          req = (case Webhook opts of
                   Some wh \<Rightarrow> req(''webhook'' \<mapsto> AMap (buildWebhook wh))
                 | None \<Rightarrow> req)
      in req)"

definition buildMargin :: "PDFMargin \<Rightarrow> (string \<Rightarrow> any option)" where
  "buildMargin mg =
     (let margin = Map.empty;
          margin = (if Top mg \<noteq> [] then margin(''top'' \<mapsto> AString (Top mg)) else margin);
          margin = (if Right mg \<noteq> [] then margin(''right'' \<mapsto> AString (Right mg)) else margin);
          margin = (if Bottom mg \<noteq> [] then margin(''bottom'' \<mapsto> AString (Bottom mg)) else margin);
          margin = (if Left mg \<noteq> [] then margin(''left'' \<mapsto> AString (Left mg)) else margin)
      in margin)"

definition buildPDFRequest :: "PDFOptions \<Rightarrow> (string \<Rightarrow> any option)" where
  "buildPDFRequest opts =
     (let req = [''url'' \<mapsto> AString (pdf_URL opts)];
          req = (if pdf_Format opts \<noteq> [] then req(''format'' \<mapsto> AString (pdf_Format opts)) else req);
          req = (if pdf_Orientation opts \<noteq> []
                 then req(''orientation'' \<mapsto> AString (pdf_Orientation opts)) else req);
          req = (if pdf_Width opts \<noteq> [] then req(''width'' \<mapsto> AString (pdf_Width opts)) else req);
          req = (if pdf_Height opts \<noteq> [] then req(''height'' \<mapsto> AString (pdf_Height opts)) else req);
          req = (if f_ne (pdf_Scale opts) 0 then req(''scale'' \<mapsto> AFloat (pdf_Scale opts)) else req);
          req = (if pdf_DisplayHeaderFooter opts then req(''displayHeaderFooter'' \<mapsto> ABool True) else req);
          req = (if pdf_HeaderTemplate opts \<noteq> []
                 then req(''headerTemplate'' \<mapsto> AString (pdf_HeaderTemplate opts)) else req);
          req = (if pdf_FooterTemplate opts \<noteq> []
                 then req(''footerTemplate'' \<mapsto> AString (pdf_FooterTemplate opts)) else req);
          req = (if pdf_PrintBackground opts then req(''printBackground'' \<mapsto> ABool True) else req);
          req = (if pdf_PreferCSSPageSize opts then req(''preferCSSPageSize'' \<mapsto> ABool True) else req);
          req = (if pdf_PageRanges opts \<noteq> []
                 then req(''pageRanges'' \<mapsto> AString (pdf_PageRanges opts)) else req);
          req = (case pdf_Margin opts of
                   Some mg \<Rightarrow>
                     if buildMargin mg \<noteq> Map.empty
                     then req(''margin'' \<mapsto> AMap (buildMargin mg)) else req
                 | None \<Rightarrow> req);
          req = (case pdf_Viewport opts of
                   Some vp \<Rightarrow>
                     if buildViewport vp \<noteq> Map.empty
                     then req(''viewport'' \<mapsto> AMap (buildViewport vp)) else req
                 | None \<Rightarrow> req);
          req = (if pdf_AcceptCookies opts then req(''acceptCookies'' \<mapsto> ABool True) else req);
          req = (if pdf_Delay opts > 0 then req(''delay'' \<mapsto> AInt (pdf_Delay opts)) else req);
          req = (if pdf_WaitUntil opts \<noteq> []
                 then req(''waitUntil'' \<mapsto> AString (pdf_WaitUntil opts)) else req);
          req = (if pdf_WaitForSelector opts \<noteq> []
                 then req(''waitForSelector'' \<mapsto> AString (pdf_WaitForSelector opts)) else req);
          req = (if pdf_WaitForTimeout opts > 0
                 then req(''waitForTimeout'' \<mapsto> AInt (pdf_WaitForTimeout opts)) else req);
          req = (if length (pdf_Cookies opts) > 0
                 then req(''cookies'' \<mapsto> ACookies (pdf_Cookies opts)) else req);
          req = (if length (pdf_Headers opts) > 0
                 then req(''headers'' \<mapsto> AHeaders (pdf_Headers opts)) else req);
          req = (if pdf_UserAgent opts \<noteq> []
                 then req(''userAgent'' \<mapsto> AString (pdf_UserAgent opts)) else req);
          req = (if pdf_DarkMode opts then req(''darkMode'' \<mapsto> ABool True) else req);
          req = (if pdf_BlockAds opts then req(''blockAds'' \<mapsto> ABool True) else req);
          req = (if pdf_BlockTrackers opts then req(''blockTrackers'' \<mapsto> ABool True) else req);
          req = (if pdf_BypassCSP opts then req(''bypassCSP'' \<mapsto> ABool True) else req);
          req = (case pdf_JavaScript opts of Some b \<Rightarrow> req(''javascript'' \<mapsto> ABool b) | None \<Rightarrow> req);
          req = (case pdf_Webhook opts of
                   Some wh \<Rightarrow> req(''webhook'' \<mapsto> AMap (buildWebhook wh))
                 | None \<Rightarrow> req)
      in req)"

subsection \<open>The capture operations (screenshot.go, pdf.go)\<close>

record ScreenshotResult =
  sr_Data :: string
  sr_ContentType :: string
  sr_URL :: string
  sr_Width :: int
  sr_Height :: int
  sr_JobID :: string

record PDFResult =
  pr_Data :: string
  pr_ContentType :: string
  pr_URL :: string
  pr_Pages :: int
  pr_JobID :: string

text \<open>The value of \<^verbatim>\<open>result.Field\<close> after \<^verbatim>\<open>if v, err := strconv.Atoi(h); err == nil\<close>.\<close>

definition headerInt :: "Response \<Rightarrow> string \<Rightarrow> int" where
  "headerInt resp key =
     (let h = Header_Get (r_Header resp) key
      in if h \<noteq> [] then (case Atoi h of (v, NoError) \<Rightarrow> v | _ \<Rightarrow> 0) else 0)"

definition parseScreenshotResponse ::
  "Response \<Rightarrow> ScreenshotOptions \<Rightarrow> ScreenshotResult option \<times> goerror option" where
  "parseScreenshotResponse resp opts =
     (let contentType = Header_Get (r_Header resp) ''Content-Type''
      in if contentType = ''application/json'' then
           (case r_Body resp of
              ReadFails m \<Rightarrow> (None, Some (ErrorString (''screencraft: failed to read response: '' @ m)))
            | Bytes raw decoded \<Rightarrow>
                (case decoded of
                   None \<Rightarrow> (None, Some (ErrorString ''screencraft: failed to parse response''))
                 | Some apiResp \<Rightarrow>
                     if \<not> Success apiResp then
                       (None, Some (PlainError
                          (MkError (r_StatusCode resp) [] (resp_Message apiResp) None [] None)))
                     else
                       (Some \<lparr>sr_Data = [], sr_ContentType = [], sr_URL = URL opts, sr_Width = 0,
                          sr_Height = 0, sr_JobID = JobID apiResp\<rparr>, None)))
         else
           (case r_Body resp of
              ReadFails m \<Rightarrow>
                (None, Some (ErrorString (''screencraft: failed to read image data: '' @ m)))
            | Bytes raw decoded \<Rightarrow>
                (Some \<lparr>sr_Data = raw, sr_ContentType = contentType, sr_URL = URL opts,
                   sr_Width = headerInt resp ''X-Image-Width'',
                   sr_Height = headerInt resp ''X-Image-Height'', sr_JobID = []\<rparr>, None)))"

definition parsePDFResponse ::
  "Response \<Rightarrow> PDFOptions \<Rightarrow> PDFResult option \<times> goerror option" where
  "parsePDFResponse resp opts =
     (let contentType = Header_Get (r_Header resp) ''Content-Type''
      in if contentType = ''application/json'' then
           (case r_Body resp of
              ReadFails m \<Rightarrow> (None, Some (ErrorString (''screencraft: failed to read response: '' @ m)))
            | Bytes raw decoded \<Rightarrow>
                (case decoded of
                   None \<Rightarrow> (None, Some (ErrorString ''screencraft: failed to parse response''))
                 | Some apiResp \<Rightarrow>
                     if \<not> Success apiResp then
                       (None, Some (PlainError
                          (MkError (r_StatusCode resp) [] (resp_Message apiResp) None [] None)))
                     else
                       (Some \<lparr>pr_Data = [], pr_ContentType = [], pr_URL = pdf_URL opts, pr_Pages = 0,
                          pr_JobID = JobID apiResp\<rparr>, None)))
         else
           (case r_Body resp of
              ReadFails m \<Rightarrow>
                (None, Some (ErrorString (''screencraft: failed to read PDF data: '' @ m)))
            | Bytes raw decoded \<Rightarrow>
                (Some \<lparr>pr_Data = raw, pr_ContentType = contentType, pr_URL = pdf_URL opts,
                   pr_Pages = headerInt resp ''X-PDF-Pages'', pr_JobID = []\<rparr>, None)))"

text \<open>The tail shared by \<^verbatim>\<open>ScreenshotAsync\<close> and \<^verbatim>\<open>PDFAsync\<close>: read the job id.\<close>

definition parseAsyncResponse :: "Response \<Rightarrow> string \<times> goerror option" where
  "parseAsyncResponse resp =
     (case r_Body resp of
        ReadFails m \<Rightarrow> ([], Some (ErrorString (''screencraft: failed to read response: '' @ m)))
      | Bytes raw decoded \<Rightarrow>
          (case decoded of
             None \<Rightarrow> ([], Some (ErrorString ''screencraft: failed to parse response''))
           | Some apiResp \<Rightarrow>
               if \<not> Success apiResp then
                 ([], Some (PlainError
                    (MkError (r_StatusCode resp) [] (resp_Message apiResp) None [] None)))
               else (JobID apiResp, None)))"

definition webhookRequired :: goerror where
  "webhookRequired =
     fieldError (NewValidationError ''webhook.url''
       ''webhook URL is required for async operations'' ''required'')"

text \<open>
  Each operation validates, builds the body, calls \<open>doRequest\<close> and parses the response.
  In the branch after a successful validation the options pointer is not nil. When
  \<open>doRequest\<close> returns neither a response nor an error (the loop body never ran:
  \<^verbatim>\<open>maxRetries\<close> is negative), \<^verbatim>\<open>resp.Body\<close> dereferences a nil pointer and the
  operation panics. A panic inside \<open>doRequest\<close> is a panic of the operation.
\<close>

definition nilDereference :: string where
  "nilDereference = ''runtime error: invalid memory address or nil pointer dereference''"

definition Screenshot ::
  "Client \<Rightarrow> Env \<Rightarrow> ScreenshotOptions option
   \<Rightarrow> (ScreenshotResult option \<times> goerror option) outcome \<times> Client \<times> Trace" where
  "Screenshot c env opts =
     (case ValidateScreenshotOptions opts of
        Some err \<Rightarrow> (Returns (None, Some err), c, noTrace)
      | None \<Rightarrow>
          (case opts of
             None \<Rightarrow> (Returns (None, Some ErrMissingURL), c, noTrace)
           | Some v \<Rightarrow>
               (case doRequest c env (buildScreenshotRequest v) of
                  (Returns (Some resp, None), c', tr) \<Rightarrow>
                    (Returns (parseScreenshotResponse resp v), c', tr)
                | (Returns (None, None), c', tr) \<Rightarrow> (Panics nilDereference, c', tr)
                | (Returns (_, Some err), c', tr) \<Rightarrow> (Returns (None, Some err), c', tr)
                | (Panics m, c', tr) \<Rightarrow> (Panics m, c', tr)
                | (IllTyped w, c', tr) \<Rightarrow> (IllTyped w, c', tr))))"

definition ScreenshotAsync ::
  "Client \<Rightarrow> Env \<Rightarrow> ScreenshotOptions option
   \<Rightarrow> (string \<times> goerror option) outcome \<times> Client \<times> Trace" where
  "ScreenshotAsync c env opts =
     (case ValidateScreenshotOptions opts of
        Some err \<Rightarrow> (Returns ([], Some err), c, noTrace)
      | None \<Rightarrow>
          (case opts of
             None \<Rightarrow> (Returns ([], Some ErrMissingURL), c, noTrace)
           | Some v \<Rightarrow>
               if (case Webhook v of None \<Rightarrow> True | Some wh \<Rightarrow> wh_URL wh = [])
               then (Returns ([], Some webhookRequired), c, noTrace)
               else
                 (case doRequest c env (buildScreenshotRequest v) of
                    (Returns (Some resp, None), c', tr) \<Rightarrow> (Returns (parseAsyncResponse resp), c', tr)
                  | (Returns (None, None), c', tr) \<Rightarrow> (Panics nilDereference, c', tr)
                  | (Returns (_, Some err), c', tr) \<Rightarrow> (Returns ([], Some err), c', tr)
                  | (Panics m, c', tr) \<Rightarrow> (Panics m, c', tr)
                  | (IllTyped w, c', tr) \<Rightarrow> (IllTyped w, c', tr))))"

definition PDF ::
  "Client \<Rightarrow> Env \<Rightarrow> PDFOptions option
   \<Rightarrow> (PDFResult option \<times> goerror option) outcome \<times> Client \<times> Trace" where
  "PDF c env opts =
     (case ValidatePDFOptions opts of
        Some err \<Rightarrow> (Returns (None, Some err), c, noTrace)
      | None \<Rightarrow>
          (case opts of
             None \<Rightarrow> (Returns (None, Some ErrMissingURL), c, noTrace)
           | Some v \<Rightarrow>
               (case doRequest c env (buildPDFRequest v) of
                  (Returns (Some resp, None), c', tr) \<Rightarrow> (Returns (parsePDFResponse resp v), c', tr)
                | (Returns (None, None), c', tr) \<Rightarrow> (Panics nilDereference, c', tr)
                | (Returns (_, Some err), c', tr) \<Rightarrow> (Returns (None, Some err), c', tr)
                | (Panics m, c', tr) \<Rightarrow> (Panics m, c', tr)
                | (IllTyped w, c', tr) \<Rightarrow> (IllTyped w, c', tr))))"

definition PDFAsync ::
  "Client \<Rightarrow> Env \<Rightarrow> PDFOptions option
   \<Rightarrow> (string \<times> goerror option) outcome \<times> Client \<times> Trace" where
  "PDFAsync c env opts =
     (case ValidatePDFOptions opts of
        Some err \<Rightarrow> (Returns ([], Some err), c, noTrace)
      | None \<Rightarrow>
          (case opts of
             None \<Rightarrow> (Returns ([], Some ErrMissingURL), c, noTrace)
           | Some v \<Rightarrow>
               if (case pdf_Webhook v of None \<Rightarrow> True | Some wh \<Rightarrow> wh_URL wh = [])
               then (Returns ([], Some webhookRequired), c, noTrace)
               else
                 (case doRequest c env (buildPDFRequest v) of
                    (Returns (Some resp, None), c', tr) \<Rightarrow> (Returns (parseAsyncResponse resp), c', tr)
                  | (Returns (None, None), c', tr) \<Rightarrow> (Panics nilDereference, c', tr)
                  | (Returns (_, Some err), c', tr) \<Rightarrow> (Returns ([], Some err), c', tr)
                  | (Panics m, c', tr) \<Rightarrow> (Panics m, c', tr)
                  | (IllTyped w, c', tr) \<Rightarrow> (IllTyped w, c', tr))))"

section \<open>Node SDK: error factory and retry loop\<close>

text \<open>
  \<^verbatim>\<open>createErrorFromResponse\<close> of \<^verbatim>\<open>errors.ts\<close>: the class of the error it constructs
  (message and details are passed through and left out here). \<open>TS_ServerError\<close> and
  \<open>TS_CaptureError\<close> carry the status code handed to their constructors.
\<close>

datatype ts_error =
    TS_AuthenticationError
  | TS_ValidationError
  | TS_RateLimitError
  | TS_TimeoutError
  | TS_ServerError int
  | TS_CaptureError int
  | TS_UnknownError
  | TS_NetworkError

definition createErrorFromResponse :: "int \<Rightarrow> ts_error" where
  "createErrorFromResponse statusCode =
     (if statusCode = 401 \<or> statusCode = 403 then TS_AuthenticationError
      else if statusCode = 400 then TS_ValidationError
      else if statusCode = 429 then TS_RateLimitError
      else if statusCode = 408 then TS_TimeoutError
      else if statusCode = 500 \<or> statusCode = 502 \<or> statusCode = 503 \<or> statusCode = 504
      then TS_ServerError statusCode
      else if statusCode \<ge> 400 \<and> statusCode < 500 then TS_CaptureError statusCode
      else TS_UnknownError)"

text \<open>
  \<^verbatim>\<open>shouldRetry(error, attempt)\<close> of the client class. A thrown value is an Axios error,
  with the status of its response (\<open>None\<close>: no response was received) and its
  \<^verbatim>\<open>code\<close>, or an instance of \<^verbatim>\<open>ScreenCraftError\<close>, or some other value.
\<close>

datatype thrown = AxiosError "int option" "string option" | ScreenCraftThrown ts_error | OtherThrown

definition shouldRetry :: "int \<Rightarrow> thrown \<Rightarrow> int \<Rightarrow> bool" where
  "shouldRetry configMaxRetries error attempt =
     (if attempt \<ge> configMaxRetries then False
      else
        (case error of
           OtherThrown \<Rightarrow> False
         | ScreenCraftThrown e \<Rightarrow> False
         | AxiosError None code \<Rightarrow> True
         | AxiosError (Some status) code \<Rightarrow>
             if status \<noteq> 0 \<and> status \<ge> 400 \<and> status < 500 \<and> status \<noteq> 429 then False
             else (code = Some ''ECONNABORTED'' \<or> status \<ge> 500 \<or> status = 429)))"

text \<open>
  \<^verbatim>\<open>handleError(error)\<close>: a \<^verbatim>\<open>ScreenCraftError\<close> is passed through, an Axios error
  without a response becomes a \<^verbatim>\<open>NetworkError\<close>, one with a response goes through the
  factory, and anything else becomes a \<^verbatim>\<open>NetworkError\<close>.
\<close>

definition handleError :: "thrown \<Rightarrow> ts_error" where
  "handleError error =
     (case error of
        ScreenCraftThrown e \<Rightarrow> e
      | AxiosError None code \<Rightarrow> TS_NetworkError
      | AxiosError (Some status) code \<Rightarrow> createErrorFromResponse status
      | OtherThrown \<Rightarrow> TS_NetworkError)"

text \<open>
  \<^verbatim>\<open>executeWithRetry(fn, attempt)\<close>. \<open>fn k\<close> is the outcome of the call of \<^verbatim>\<open>fn()\<close> made
  at attempt \<open>k\<close>: a thrown value or a result. The second component counts the calls of
  \<^verbatim>\<open>fn\<close>; the sleep between attempts is not modelled.
\<close>

function executeWithRetry ::
  "int \<Rightarrow> (nat \<Rightarrow> thrown + 'a) \<Rightarrow> int \<Rightarrow> (ts_error + 'a) \<times> nat" where
  "executeWithRetry configMaxRetries fn attempt =
     (case fn (nat attempt) of
        Inr v \<Rightarrow> (Inr v, 1)
      | Inl error \<Rightarrow>
          if shouldRetry configMaxRetries error attempt \<and> attempt < configMaxRetries
          then (case executeWithRetry configMaxRetries fn (attempt + 1) of
                  (r, n) \<Rightarrow> (r, Suc n))
          else (Inl (handleError error), 1))"
  by pat_completeness auto
termination
  by (relation "measure (\<lambda>(m, fn, attempt). nat (m - attempt))") auto

declare executeWithRetry.simps [simp del]

section \<open>Concrete inputs\<close>

text \<open>
  A response with the given status and body and no headers, the JSON error body
  \<^verbatim>\<open>{"success":false}\<close> with its decoding, a body that is no JSON, a 429 response with
  \<^verbatim>\<open>Retry-After: 5\<close> and a JSON body, and the same with a body that is no JSON. An
  environment in which every send receives the same response, the context is never done
  and the random source returns 0; one in which every send fails with a transport error;
  and one in which every send receives the same response and the context is done in the
  \<^verbatim>\<open>select\<close> before iteration \<open>k\<close>.
\<close>

definition jsonErrorBody :: body where
  "jsonErrorBody =
     Bytes ''{\"success\":false}''
       (Some \<lparr>Success = False, resp_Message = [], JobID = [], resp_Error = None\<rparr>)"

definition textBody :: body where
  "textBody = Bytes ''upstream error'' None"

definition respond :: "int \<Rightarrow> body \<Rightarrow> Response" where
  "respond status b = \<lparr>r_StatusCode = status, r_Header = Map.empty, r_Body = b\<rparr>"

definition rateLimited :: Response where
  "rateLimited =
     \<lparr>r_StatusCode = 429, r_Header = [''Retry-After'' \<mapsto> ''5''], r_Body = jsonErrorBody\<rparr>"

definition rateLimitedText :: Response where
  "rateLimitedText =
     \<lparr>r_StatusCode = 429, r_Header = [''Retry-After'' \<mapsto> ''5''], r_Body = textBody\<rparr>"

definition always :: "Response \<Rightarrow> Env" where
  "always resp =
     \<lparr>newRequestErr = None, httpDo = (\<lambda>k. DoResponse resp), ctxDone = (\<lambda>k. None),
      randFloat = (\<lambda>k. 0), roundFloat = (\<lambda>x. x)\<rparr>"

definition unreachable :: Env where
  "unreachable =
     \<lparr>newRequestErr = None, httpDo = (\<lambda>i. DoError ''connection refused''),
      ctxDone = (\<lambda>i. None), randFloat = (\<lambda>i. 0), roundFloat = (\<lambda>x. x)\<rparr>"


text \<open>
  The test of \<open>parseRateLimitHeaders\<close>: one of the three parsed header values is positive.
\<close>

definition rateLimitPositive :: "Response \<Rightarrow> bool" where
  "rateLimitPositive resp =
     (fst (Atoi (Header_Get (r_Header resp) ''X-RateLimit-Limit'')) > 0
      \<or> fst (Atoi (Header_Get (r_Header resp) ''X-RateLimit-Remaining'')) > 0
      \<or> fst (ParseInt (Header_Get (r_Header resp) ''X-RateLimit-Reset'')) > 0)"

definition withLimits :: Response where
  "withLimits =
     \<lparr>r_StatusCode = 200,
      r_Header = [''X-RateLimit-Limit'' \<mapsto> ''100'', ''X-RateLimit-Remaining'' \<mapsto> ''50'',
        ''X-RateLimit-Reset'' \<mapsto> ''1640000000''],
      r_Body = textBody\<rparr>"

text \<open>
  The zero values of the option structs: every field unset. A webhook with a URL that is
  no URL.
\<close>

definition zeroScreenshotOptions :: ScreenshotOptions where
  "zeroScreenshotOptions =
     \<lparr>URL = [], Format = [], Quality = 0, FullPage = False, Viewport = None,
      ScrollPosition = None, Clip = None, AcceptCookies = False, Delay = 0, WaitUntil = [],
      WaitForSelector = [], WaitForTimeout = 0, Cookies = [], Headers = [], UserAgent = [],
      DeviceScaleFactor = Finite 0, IsMobile = False, HasTouch = False, IsLandscape = False,
      DarkMode = False, BlockAds = False, BlockTrackers = False, BypassCSP = False,
      JavaScript = None, Webhook = None\<rparr>"

definition zeroPDFOptions :: PDFOptions where
  "zeroPDFOptions =
     \<lparr>pdf_URL = [], pdf_Format = [], pdf_Orientation = [], pdf_Width = [], pdf_Height = [],
      pdf_Scale = Finite 0, pdf_DisplayHeaderFooter = False, pdf_HeaderTemplate = [],
      pdf_FooterTemplate = [], pdf_PrintBackground = False, pdf_PreferCSSPageSize = False,
      pdf_PageRanges = [], pdf_Margin = None, pdf_Viewport = None, pdf_AcceptCookies = False,
      pdf_Delay = 0, pdf_WaitUntil = [], pdf_WaitForSelector = [], pdf_WaitForTimeout = 0,
      pdf_Cookies = [], pdf_Headers = [], pdf_UserAgent = [], pdf_DarkMode = False,
      pdf_BlockAds = False, pdf_BlockTrackers = False, pdf_BypassCSP = False,
      pdf_JavaScript = None, pdf_Webhook = None\<rparr>"

definition badWebhook :: WebhookConfig where
  "badWebhook = \<lparr>wh_URL = ''invalid-webhook-url'', wh_Headers = [], wh_Secret = []\<rparr>"

section \<open>Properties\<close>

subsection \<open>Which errors are retryable, and what a retry does\<close>

lemma IsRetryable_PlainError [simp]:
  "IsRetryable (Some (PlainError e)) = Returns (Error_IsRetryable e)"
  by (simp add: IsRetryable_def)

lemma IsRetryable_ErrorString [simp]:
  "IsRetryable (Some (ErrorString s)) = Panics targetPanic"
  by (simp add: IsRetryable_def andThen_def)

lemma IsRetryable_nil [simp]:
  "IsRetryable None = Returns False"
  by (simp add: IsRetryable_def andThen_def)

lemma GetRetryAfter_nil [simp]:
  "GetRetryAfter None = Returns 0"
  by (simp add: GetRetryAfter_def andThen_def)

lemma GetRetryAfter_panics [simp]:
  "GetRetryAfter (Some e) = Panics targetPanic"
  by (simp add: GetRetryAfter_def andThen_def)

lemma calculateBackoff_panics [simp]:
  "calculateBackoff c fl attempt (Some e) rnd = Panics targetPanic"
  by (simp add: calculateBackoff_def andThen_def)

lemma waitBeforeRetry_panics:
  "0 < attempt \<Longrightarrow> waitBeforeRetry c env attempt (Some e) tr = (Panics targetPanic, tr)"
  by (simp add: waitBeforeRetry_def)

text \<open>
  An iteration of the loop that follows a failed attempt ends in the panic of
  \<^verbatim>\<open>calculateBackoff\<close>: nothing is sent, no timer is armed.
\<close>

lemma doLoop_after_failure:
  "0 < attempt \<Longrightarrow>
     doLoop c env attempt (Some e) tr
       = (if attempt \<le> maxRetries c then (Panics targetPanic, c, tr)
          else (Returns (None, Some e), c, tr))"
  by (subst doLoop.simps) (simp add: waitBeforeRetry_panics)

text \<open>
  What \<^verbatim>\<open>parseErrorResponse\<close> can give: a plain \<^verbatim>\<open>*Error\<close> with the status of the
  response, or a statement that does not type-check.
\<close>

lemma parseErrorResponse_cases:
  "(\<exists>e. parseErrorResponse resp = Returns (PlainError e) \<and> StatusCode e = r_StatusCode resp)
   \<or> (\<exists>w. parseErrorResponse resp = IllTyped w)"
  by (simp add: parseErrorResponse_def Let_def split: body.splits option.splits)

lemma parseErrorResponse_not_json:
  "r_Body resp = Bytes raw None \<Longrightarrow>
     parseErrorResponse resp = Returns (PlainError (MkError (r_StatusCode resp) [] raw None [] None))"
  by (simp add: parseErrorResponse_def)

lemma jsonMarshals_empty [simp]: "jsonMarshals Map.empty"
  by (simp add: jsonMarshals_def)

text \<open>The first iteration, for a response of status \<open>\<ge> 400\<close> that is classified.\<close>

lemma doLoop_failed_response:
  assumes "0 \<le> maxRetries c" "newRequestErr env = None" "httpDo env 0 = DoResponse resp"
    "r_StatusCode resp \<ge> 400" "parseErrorResponse resp = Returns (PlainError e)"
  shows "doLoop c env 0 None tr
           = (if Error_IsRetryable e \<and> maxRetries c \<noteq> 0 then Panics targetPanic
              else Returns (None, Some (PlainError e)),
              parseRateLimitHeaders c resp, tr\<lparr>calls := Suc (calls tr)\<rparr>)"
proof (cases "Error_IsRetryable e \<and> maxRetries c \<noteq> 0")
  case True
  then have s: "sendOnce c env 0 tr
      = Continue (PlainError e) (parseRateLimitHeaders c resp) (tr\<lparr>calls := Suc (calls tr)\<rparr>)"
    using assms by (simp add: sendOnce_def Let_def)
  have m: "1 \<le> maxRetries (parseRateLimitHeaders c resp)"
    using True assms(1) by (simp add: parseRateLimitHeaders_maxRetries)
  have "doLoop c env 0 None tr
      = doLoop (parseRateLimitHeaders c resp) env 1 (Some (PlainError e))
          (tr\<lparr>calls := Suc (calls tr)\<rparr>)"
    using assms(1) s by (subst doLoop.simps) (simp add: waitBeforeRetry_def)
  also have "\<dots> = (Panics targetPanic, parseRateLimitHeaders c resp, tr\<lparr>calls := Suc (calls tr)\<rparr>)"
    using m by (simp add: doLoop_after_failure)
  finally show ?thesis using True by simp
next
  case False
  then have s: "sendOnce c env 0 tr
      = Return (Returns (None, Some (PlainError e))) (parseRateLimitHeaders c resp)
          (tr\<lparr>calls := Suc (calls tr)\<rparr>)"
    using assms by (auto simp: sendOnce_def Let_def)
  show ?thesis
    using assms(1) s False by (subst doLoop.simps) (simp add: waitBeforeRetry_def)
qed

subsection \<open>Sends and timers of one call\<close>

lemma waitBeforeRetry_calls:
  "calls (snd (waitBeforeRetry c env attempt lastErr tr)) = calls tr"
  by (simp add: waitBeforeRetry_def Let_def split: option.splits outcome.splits)

lemma sendOnce_Return_calls:
  "sendOnce c env attempt tr = Return r c' tr' \<Longrightarrow> calls tr' \<le> Suc (calls tr)"
  by (auto simp: sendOnce_def Let_def split: option.splits DoResult.splits if_splits outcome.splits)

lemma sendOnce_Continue_calls:
  "sendOnce c env attempt tr = Continue e c' tr' \<Longrightarrow>
     calls tr' = Suc (calls tr) \<and> attempt \<noteq> maxRetries c"
  by (auto simp: sendOnce_def Let_def split: option.splits DoResult.splits if_splits outcome.splits)

lemma doLoop_calls:
  "calls (snd (snd (doLoop c env attempt lastErr tr)))
     \<le> calls tr + nat (maxRetries c + 1 - attempt)"
proof (induction c env attempt lastErr tr rule: doLoop.induct)
  case (1 c env attempt lastErr tr)
  show ?case
  proof (cases "attempt \<le> maxRetries c")
    case False
    then show ?thesis by (subst doLoop.simps) simp
  next
    case le: True
    obtain w tr1 where w: "waitBeforeRetry c env attempt lastErr tr = (w, tr1)"
      by (cases "waitBeforeRetry c env attempt lastErr tr")
    have c1: "calls tr1 = calls tr"
      using waitBeforeRetry_calls[of c env attempt lastErr tr] w by simp
    show ?thesis
    proof (cases w)
      case (Panics m)
      then show ?thesis using le w c1 by (subst doLoop.simps) simp
    next
      case (IllTyped x)
      then show ?thesis using le w c1 by (subst doLoop.simps) simp
    next
      case (Returns ctx)
      show ?thesis
      proof (cases ctx)
        case (Some ctxErr)
        then show ?thesis using le w c1 Returns by (subst doLoop.simps) simp
      next
        case None
        show ?thesis
        proof (cases "sendOnce c env attempt tr1")
          case (Return r c' tr')
          then show ?thesis
            using le w None Returns c1 sendOnce_Return_calls[OF Return]
            by (subst doLoop.simps) simp
        next
          case (Continue e c' tr')
          have ih: "calls (snd (snd (doLoop c' env (attempt + 1) (Some e) tr')))
                      \<le> calls tr' + nat (maxRetries c' + 1 - (attempt + 1))"
            using "1.IH"[OF le w[symmetric] Returns None Continue] .
          have m: "maxRetries c' = maxRetries c"
            using sendOnce_Continue_maxRetries[OF Continue] .
          have k: "calls tr' = Suc (calls tr1)" "attempt \<noteq> maxRetries c"
            using sendOnce_Continue_calls[OF Continue] by simp_all
          show ?thesis
            using le w None Returns Continue ih m k c1
            by (subst doLoop.simps) simp
        qed
      qed
    qed
  qed
qed

lemma doRequest_calls:
  "int (calls (snd (snd (doRequest c env body)))) \<le> max 0 (maxRetries c + 1)"
  using doLoop_calls[of c env 0 None noTrace]
  by (auto simp: doRequest_def noTrace_def)

text \<open>No call of \<open>doRequest\<close> sends twice: the iteration after a failed send panics.\<close>

lemma doLoop_sends_once:
  "calls (snd (snd (doLoop c env 0 None tr))) \<le> Suc (calls tr)"
proof (cases "0 \<le> maxRetries c")
  case False
  then show ?thesis by (subst doLoop.simps) simp
next
  case le: True
  show ?thesis
  proof (cases "sendOnce c env 0 tr")
    case (Return r c' tr')
    then show ?thesis
      using le sendOnce_Return_calls[OF Return]
      by (subst doLoop.simps) (simp add: waitBeforeRetry_def)
  next
    case (Continue e c' tr')
    have k: "calls tr' = Suc (calls tr)"
      using sendOnce_Continue_calls[OF Continue] by simp
    have "doLoop c env 0 None tr = doLoop c' env 1 (Some e) tr'"
      using le Continue by (subst doLoop.simps) (simp add: waitBeforeRetry_def)
    then show ?thesis
      using k by (simp add: doLoop_after_failure)
  qed
qed

lemma doRequest_sends_once:
  "calls (snd (snd (doRequest c env body))) \<le> 1"
  using doLoop_sends_once[of c env noTrace]
  by (simp add: doRequest_def noTrace_def)

text \<open>No call of \<open>doRequest\<close> arms a timer: the wait before a retry is never computed.\<close>

lemma sendOnce_waits:
  "sendOnce c env attempt tr = Return r c' tr' \<Longrightarrow> waits tr' = waits tr"
  "sendOnce c env attempt tr = Continue e c' tr' \<Longrightarrow> waits tr' = waits tr"
  by (auto simp: sendOnce_def Let_def split: option.splits DoResult.splits if_splits outcome.splits)

lemma doLoop_arms_no_timer:
  "waits (snd (snd (doLoop c env 0 None tr))) = waits tr"
proof (cases "0 \<le> maxRetries c")
  case False
  then show ?thesis by (subst doLoop.simps) simp
next
  case le: True
  show ?thesis
  proof (cases "sendOnce c env 0 tr")
    case (Return r c' tr')
    then show ?thesis
      using le sendOnce_waits(1)[OF Return]
      by (subst doLoop.simps) (simp add: waitBeforeRetry_def)
  next
    case (Continue e c' tr')
    have k: "waits tr' = waits tr"
      using sendOnce_waits(2)[OF Continue] .
    have "doLoop c env 0 None tr = doLoop c' env 1 (Some e) tr'"
      using le Continue by (subst doLoop.simps) (simp add: waitBeforeRetry_def)
    then show ?thesis
      using k by (simp add: doLoop_after_failure)
  qed
qed

lemma doRequest_arms_no_timer:
  "waits (snd (snd (doRequest c env body))) = []"
  using doLoop_arms_no_timer[of c env noTrace]
  by (simp add: doRequest_def noTrace_def)

lemmas run_defs =
  doLoop.simps doRequest_def New_def noTrace_def waitBeforeRetry_def sendOnce_def always_def
  respond_def jsonErrorBody_def textBody_def parseErrorResponse_def Header_Get_def
  parseRateLimitHeaders_def Atoi_def ParseInt_def ParseUint_def DefaultMaxRetries_def
  DefaultRetryWaitMin_def DefaultRetryWaitMax_def DefaultBaseURL_def Error_IsRetryable_def

subsection \<open>Retries\<close>

text \<open>
  Claim C1 (the code departs from it). The claim: a failed attempt is retried, while
  attempts remain, exactly when its error is a RateLimit, Timeout, Network or Server
  error. The source never completes a retry. With the default three retries and a 503
  response whose body is no JSON, \<^verbatim>\<open>parseErrorResponse\<close> returns a plain \<^verbatim>\<open>*Error\<close>,
  \<^verbatim>\<open>IsRetryable\<close> is true for it and the loop goes on to its second iteration; there
  \<^verbatim>\<open>calculateBackoff\<close> calls \<^verbatim>\<open>GetRetryAfter(lastErr)\<close>, whose \<^verbatim>\<open>errors.As\<close> has a
  \<^verbatim>\<open>*RateLimitError\<close> target and panics: one request was sent, the call neither retries
  nor returns the error. For a 500 response with a JSON body and for a transport error the
  first iteration reaches a statement that does not type-check
  (\<^verbatim>\<open>return &ServerError{...}\<close>, \<^verbatim>\<open>lastErr = NewNetworkError(err)\<close>). In every case at
  most one request is sent. The Node client, with three retries, calls four times for a
  503.
\<close>

theorem retry_never_completes:
  "doRequest (New ''key'' []) (always (respond 503 textBody)) Map.empty
     = (Panics targetPanic, New ''key'' [], \<lparr>calls = 1, waits = []\<rparr>)
   \<and> parseErrorResponse (respond 503 textBody)
     = Returns (PlainError (MkError 503 [] ''upstream error'' None [] None))
   \<and> IsRetryable (Some (PlainError (MkError 503 [] ''upstream error'' None [] None))) = Returns True
   \<and> maxRetries (New ''key'' []) = 3
   \<and> doRequest (New ''key'' []) (always (respond 500 jsonErrorBody)) Map.empty
     = (IllTyped (ServerError (MkError 500 [] [] None [] None)), New ''key'' [],
        \<lparr>calls = 1, waits = []\<rparr>)
   \<and> doRequest (New ''key'' []) unreachable Map.empty
     = (IllTyped (NetworkError (MkError 0 ''NETWORK_ERROR'' ''network error occurred'' None []
          (Some (ErrorString ''connection refused'')))), New ''key'' [], \<lparr>calls = 1, waits = []\<rparr>)
   \<and> calls (snd (snd (doRequest c env body))) \<le> 1
   \<and> executeWithRetry 3 (\<lambda>k. Inl (AxiosError (Some 503) None) :: thrown + string) 0
       = (Inl (TS_ServerError 503), 4)"
proof (intro conjI)
  show "calls (snd (snd (doRequest c env body))) \<le> 1"
    by (rule doRequest_sends_once)
qed (simp_all add: run_defs unreachable_def NewNetworkError_def executeWithRetry.simps
    shouldRetry_def handleError_def createErrorFromResponse_def)

subsection \<open>Backoff\<close>

lemma Atoi_5: "Atoi ''5'' = (5, NoError)"
  by (simp add: Atoi_def ParseInt_def ParseUint_def isDigit_def maxUint64_def)

text \<open>
  Claim C2 (the code departs from it). The claim: the wait before a retry is the
  \<^verbatim>\<open>retryAfter\<close> of the preceding error when that is positive (5 seconds after a 429
  response with \<^verbatim>\<open>Retry-After: 5\<close>), and otherwise the capped exponential delay plus
  jitter. In the source the wait before a retry is \<^verbatim>\<open>calculateBackoff(attempt, lastErr)\<close>
  with the error of the preceding attempt, which is never nil, and for every such error
  \<^verbatim>\<open>GetRetryAfter\<close> panics: no wait is ever computed. After a 429 response with
  \<^verbatim>\<open>Retry-After: 5\<close> and a body that is no JSON the error is a plain \<^verbatim>\<open>*Error\<close>, which
  holds no \<^verbatim>\<open>RetryAfter\<close>, and the call panics at the start of the retry with an empty
  list of waits; with a JSON body the struct that holds the five seconds is built, but the
  statement that returns it does not type-check. No call of \<^verbatim>\<open>doRequest\<close> arms a
  timer.
\<close>

theorem retry_wait_never_computed:
  "GetRetryAfter (Some lastErr) = Panics targetPanic
   \<and> calculateBackoff c fl attempt (Some lastErr) rnd = Panics targetPanic
   \<and> waitBeforeRetry c env 1 (Some lastErr) tr = (Panics targetPanic, tr)
   \<and> parseErrorResponse rateLimitedText
     = Returns (PlainError (MkError 429 [] ''upstream error'' None [] None))
   \<and> doRequest (New ''key'' []) (always rateLimitedText) Map.empty
     = (Panics targetPanic, New ''key'' [], \<lparr>calls = 1, waits = []\<rparr>)
   \<and> doRequest (New ''key'' []) (always rateLimited) Map.empty
     = (IllTyped (RateLimitError (MkError 429 [] [] None [] None) 0 0 0 5000000000), New ''key'' [],
        \<lparr>calls = 1, waits = []\<rparr>)
   \<and> waits (snd (snd (doRequest c env body))) = []"
proof (intro conjI)
  show "waits (snd (snd (doRequest c env body))) = []"
    by (rule doRequest_arms_no_timer)
qed (simp_all add: run_defs rateLimitedText_def rateLimited_def waitBeforeRetry_panics Atoi_5
    wrap64_def Second_def isDigit_def maxUint64_def)

subsection \<open>The number of sends\<close>

text \<open>
  Claim C3 (the code departs from it). The claim: a call with \<open>maxRetries = n \<ge> 0\<close>
  makes at most \<open>n + 1\<close> attempts; with \<open>maxRetries = 0\<close> and a 500 response it makes
  exactly one and fails with a Server error. The bound holds in the source. The error does
  not: for a 500 response with a JSON body the source reaches
  \<^verbatim>\<open>return &ServerError{Error: baseErr}\<close>, which does not type-check, so no
  \<^verbatim>\<open>*ServerError\<close> is ever returned; for a 500 response whose body is no JSON the call
  makes one attempt and fails with a plain \<^verbatim>\<open>*Error\<close> of status 500, on which
  \<^verbatim>\<open>IsServerError\<close> panics. The Node client, with no retries, calls once for a 500 and
  rejects with a \<^verbatim>\<open>ServerError\<close>.
\<close>

theorem no_server_error_for_500:
  "int (calls (snd (snd (doRequest c env body)))) \<le> max 0 (maxRetries c + 1)
   \<and> doRequest (New ''key'' [WithMaxRetries 0]) (always (respond 500 jsonErrorBody)) Map.empty
     = (IllTyped (ServerError (MkError 500 [] [] None [] None)), New ''key'' [WithMaxRetries 0],
        \<lparr>calls = 1, waits = []\<rparr>)
   \<and> doRequest (New ''key'' [WithMaxRetries 0]) (always (respond 500 textBody)) Map.empty
     = (Returns (None, Some (PlainError (MkError 500 [] ''upstream error'' None [] None))),
        New ''key'' [WithMaxRetries 0], \<lparr>calls = 1, waits = []\<rparr>)
   \<and> IsServerError (Some (PlainError (MkError 500 [] ''upstream error'' None [] None)))
     = Panics targetPanic
   \<and> maxRetries (New ''key'' [WithMaxRetries 0]) = 0
   \<and> executeWithRetry 0 (\<lambda>k. Inl (AxiosError (Some 500) None) :: thrown + string) 0
       = (Inl (TS_ServerError 500), 1)"
proof (intro conjI)
  show "int (calls (snd (snd (doRequest c env body)))) \<le> max 0 (maxRetries c + 1)"
    by (rule doRequest_calls)
qed (simp_all add: run_defs WithMaxRetries_def IsServerError_def andThen_def
    executeWithRetry.simps shouldRetry_def handleError_def createErrorFromResponse_def)

subsection \<open>Cancellation during a wait\<close>


subsection \<open>The rate-limit snapshot\<close>

lemma parse_absent: "ParseInt [] = (0, ErrSyntax)"
  by (simp add: ParseInt_def)

lemma parse_zero: "ParseInt ''0'' = (0, NoError)"
  by (simp add: ParseInt_def ParseUint_def isDigit_def maxUint64_def)

lemma parseRateLimitHeaders_keep:
  "\<not> rateLimitPositive resp \<Longrightarrow> parseRateLimitHeaders c resp = c"
  by (simp add: parseRateLimitHeaders_def rateLimitPositive_def Let_def)

lemma parseRateLimitHeaders_store:
  "rateLimitPositive resp \<Longrightarrow> lastRateLimit (parseRateLimitHeaders c resp) \<noteq> None"
  by (auto simp: parseRateLimitHeaders_def rateLimitPositive_def Let_def)

lemma foldl_snapshot:
  "lastRateLimit (foldl parseRateLimitHeaders c rs) = None
     \<longleftrightarrow> lastRateLimit c = None \<and> (\<forall>r \<in> set rs. \<not> rateLimitPositive r)"
proof (induction rs arbitrary: c)
  case Nil
  show ?case by simp
next
  case (Cons r rs)
  show ?case
  proof (cases "rateLimitPositive r")
    case True
    then show ?thesis
      using Cons.IH[of "parseRateLimitHeaders c r"] parseRateLimitHeaders_store[of r c] by simp
  next
    case False
    then show ?thesis
      using Cons.IH[of c] parseRateLimitHeaders_keep[of r c] by simp
  qed
qed

lemma absent_or_zero:
  assumes "r_Header resp ''X-RateLimit-Limit'' = None \<or> r_Header resp ''X-RateLimit-Limit'' = Some ''0''"
    "r_Header resp ''X-RateLimit-Remaining'' = None \<or> r_Header resp ''X-RateLimit-Remaining'' = Some ''0''"
    "r_Header resp ''X-RateLimit-Reset'' = None \<or> r_Header resp ''X-RateLimit-Reset'' = Some ''0''"
  shows "\<not> rateLimitPositive resp"
  using assms
  by (auto simp: rateLimitPositive_def Header_Get_def Atoi_def parse_absent parse_zero)

lemma sendOnce_client:
  assumes "\<forall>i resp. httpDo env i = DoResponse resp \<longrightarrow> \<not> rateLimitPositive resp"
  shows "sendOnce c env attempt tr = Return r c' tr' \<Longrightarrow> c' = c"
    and "sendOnce c env attempt tr = Continue e c' tr' \<Longrightarrow> c' = c"
  using assms parseRateLimitHeaders_keep
  by (auto simp: sendOnce_def Let_def split: option.splits DoResult.splits if_splits outcome.splits)

lemma waitBeforeRetry_cases:
  "(\<exists>tr1. waitBeforeRetry c env attempt lastErr tr = (Returns None, tr1))
   \<or> (\<exists>r tr1. waitBeforeRetry c env attempt lastErr tr = (r, tr1) \<and> r \<noteq> Returns None)"
  by (cases "waitBeforeRetry c env attempt lastErr tr") auto

lemma doLoop_stops:
  assumes "attempt \<le> maxRetries c" "waitBeforeRetry c env attempt lastErr tr = (r, tr1)"
    "r \<noteq> Returns None"
  shows "snd (doLoop c env attempt lastErr tr) = (c, tr1)"
proof (cases r)
  case (Returns x)
  then obtain y where "x = Some y"
    using assms(3) by (cases x) auto
  then show ?thesis
    using assms Returns by (subst doLoop.simps) simp
next
  case (Panics m)
  then show ?thesis
    using assms by (subst doLoop.simps) simp
next
  case (IllTyped w)
  then show ?thesis
    using assms by (subst doLoop.simps) simp
qed

lemma doLoop_client:
  assumes "\<forall>i resp. httpDo env i = DoResponse resp \<longrightarrow> \<not> rateLimitPositive resp"
  shows "fst (snd (doLoop c env attempt lastErr tr)) = c"
  using assms
proof (induction c env attempt lastErr tr rule: doLoop.induct)
  case (1 c env attempt lastErr tr)
  show ?case
  proof (cases "attempt \<le> maxRetries c")
    case False
    then show ?thesis by (subst doLoop.simps) simp
  next
    case le: True
    consider tr1 where "waitBeforeRetry c env attempt lastErr tr = (Returns None, tr1)"
      | r tr1 where "waitBeforeRetry c env attempt lastErr tr = (r, tr1)" "r \<noteq> Returns None"
      using waitBeforeRetry_cases[of c env attempt lastErr tr] by blast
    then show ?thesis
    proof cases
      case 2
      then show ?thesis using doLoop_stops[OF le, of env lastErr tr r tr1] by simp
    next
      case w: 1
      show ?thesis
      proof (cases "sendOnce c env attempt tr1")
        case (Return r c' tr')
        then show ?thesis
          using le w sendOnce_client(1)[OF "1.prems" Return]
          by (subst doLoop.simps) simp
      next
        case (Continue e c' tr')
        have cc: "c' = c" using sendOnce_client(2)[OF "1.prems" Continue] .
        have ih: "fst (snd (doLoop c' env (attempt + 1) (Some e) tr')) = c'"
          using "1.IH"[OF le w[symmetric] refl refl Continue "1.prems"] .
        show ?thesis
          using le w Continue ih cc
          by (subst doLoop.simps) simp
      qed
    qed
  qed
qed

lemma doRequest_client:
  assumes "\<forall>i resp. httpDo env i = DoResponse resp \<longrightarrow> \<not> rateLimitPositive resp"
  shows "fst (snd (doRequest c env body)) = c"
  using doLoop_client[OF assms] by (simp add: doRequest_def)

text \<open>
  Claim C10. A new client has no snapshot (\<open>GetRateLimitInfo\<close> is nil) and the client
  options keep it so. After any sequence of responses the snapshot is still nil exactly
  when it was nil before and no response carried a positive rate-limit value; a call of
  \<open>doRequest\<close> that observes no such response leaves the snapshot as it was. A response
  without a positive value, in particular one whose three headers are each absent or
  \<^verbatim>\<open>0\<close>, does not change the client.
\<close>

theorem snapshot_nil_until_positive:
  "GetRateLimitInfo (New key []) = None
   \<and> GetRateLimitInfo (WithBaseURL u c) = GetRateLimitInfo c
   \<and> GetRateLimitInfo (WithMaxRetries n c) = GetRateLimitInfo c
   \<and> GetRateLimitInfo (WithRetryWait mn mx c) = GetRateLimitInfo c
   \<and> (GetRateLimitInfo (foldl parseRateLimitHeaders c rs) = None
        \<longleftrightarrow> GetRateLimitInfo c = None \<and> (\<forall>r \<in> set rs. \<not> rateLimitPositive r))
   \<and> ((\<forall>i r. httpDo env i = DoResponse r \<longrightarrow> \<not> rateLimitPositive r)
        \<longrightarrow> GetRateLimitInfo (fst (snd (doRequest c env body))) = GetRateLimitInfo c)
   \<and> (\<not> rateLimitPositive resp \<longrightarrow> parseRateLimitHeaders c resp = c)
   \<and> ((r_Header resp ''X-RateLimit-Limit'' = None \<or> r_Header resp ''X-RateLimit-Limit'' = Some ''0'')
        \<and> (r_Header resp ''X-RateLimit-Remaining'' = None
            \<or> r_Header resp ''X-RateLimit-Remaining'' = Some ''0'')
        \<and> (r_Header resp ''X-RateLimit-Reset'' = None \<or> r_Header resp ''X-RateLimit-Reset'' = Some ''0'')
        \<longrightarrow> parseRateLimitHeaders c resp = c)"
proof (intro conjI impI)
  show "GetRateLimitInfo (New key []) = None"
    by (simp add: GetRateLimitInfo_def New_def)
  show "GetRateLimitInfo (WithBaseURL u c) = GetRateLimitInfo c"
    by (simp add: GetRateLimitInfo_def WithBaseURL_def)
  show "GetRateLimitInfo (WithMaxRetries n c) = GetRateLimitInfo c"
    by (simp add: GetRateLimitInfo_def WithMaxRetries_def)
  show "GetRateLimitInfo (WithRetryWait mn mx c) = GetRateLimitInfo c"
    by (simp add: GetRateLimitInfo_def WithRetryWait_def)
  show "GetRateLimitInfo (foldl parseRateLimitHeaders c rs) = None
        \<longleftrightarrow> GetRateLimitInfo c = None \<and> (\<forall>r \<in> set rs. \<not> rateLimitPositive r)"
    using foldl_snapshot[of c rs] by (simp add: GetRateLimitInfo_def)
next
  assume "\<forall>i r. httpDo env i = DoResponse r \<longrightarrow> \<not> rateLimitPositive r"
  then show "GetRateLimitInfo (fst (snd (doRequest c env body))) = GetRateLimitInfo c"
    using doRequest_client[of env c body] by simp
next
  assume "\<not> rateLimitPositive resp"
  then show "parseRateLimitHeaders c resp = c"
    by (rule parseRateLimitHeaders_keep)
next
  assume "(r_Header resp ''X-RateLimit-Limit'' = None \<or> r_Header resp ''X-RateLimit-Limit'' = Some ''0'')
        \<and> (r_Header resp ''X-RateLimit-Remaining'' = None
            \<or> r_Header resp ''X-RateLimit-Remaining'' = Some ''0'')
        \<and> (r_Header resp ''X-RateLimit-Reset'' = None \<or> r_Header resp ''X-RateLimit-Reset'' = Some ''0'')"
  then have "\<not> rateLimitPositive resp"
    using absent_or_zero[of resp] by blast
  then show "parseRateLimitHeaders c resp = c"
    by (rule parseRateLimitHeaders_keep)
qed

theorem snapshot_nil_until_positive_witness:
  "\<not> rateLimitPositive (respond 200 textBody)
   \<and> r_Header (respond 200 textBody) ''X-RateLimit-Limit'' = None
   \<and> r_Header (respond 200 textBody) ''X-RateLimit-Remaining'' = None
   \<and> r_Header (respond 200 textBody) ''X-RateLimit-Reset'' = None
   \<and> GetRateLimitInfo (foldl parseRateLimitHeaders (New ''key'' []) [respond 200 textBody]) = None
   \<and> GetRateLimitInfo (fst (snd (doRequest (New ''key'' []) (always (respond 200 textBody)) Map.empty)))
       = None
   \<and> parseRateLimitHeaders (parseRateLimitHeaders (New ''key'' []) withLimits) (respond 200 textBody)
       = parseRateLimitHeaders (New ''key'' []) withLimits
   \<and> GetRateLimitInfo (parseRateLimitHeaders (New ''key'' []) withLimits)
       = Some \<lparr>Limit = 100, Remaining = 50, Reset = 1640000000\<rparr>"
proof -
  have np: "\<not> rateLimitPositive (respond 200 textBody)"
    by (simp add: rateLimitPositive_def respond_def Header_Get_def Atoi_def parse_absent)
  have h1: "\<forall>r \<in> set [respond 200 textBody]. \<not> rateLimitPositive r"
    using np by simp
  have h2: "\<forall>i r. httpDo (always (respond 200 textBody)) i = DoResponse r \<longrightarrow> \<not> rateLimitPositive r"
    using np by (simp add: always_def)
  have h3: "GetRateLimitInfo (New ''key'' []) = None"
    by (simp add: GetRateLimitInfo_def New_def)
  have h4: "GetRateLimitInfo (parseRateLimitHeaders (New ''key'' []) withLimits)
       = Some \<lparr>Limit = 100, Remaining = 50, Reset = 1640000000\<rparr>"
    by (simp add: GetRateLimitInfo_def parseRateLimitHeaders_def withLimits_def Header_Get_def
        Atoi_def ParseInt_def ParseUint_def isDigit_def maxUint64_def)
  show ?thesis
    using snapshot_nil_until_positive[where c = "New ''key'' []" and rs = "[respond 200 textBody]"
        and env = "always (respond 200 textBody)" and resp = "respond 200 textBody"
        and body = Map.empty and key = "''key''"]
      snapshot_nil_until_positive[where c = "parseRateLimitHeaders (New ''key'' []) withLimits"
        and resp = "respond 200 textBody"]
      np h1 h2 h3 h4
    by (simp add: respond_def)
qed

subsection \<open>Request bodies\<close>

text \<open>
  Claim C7. For a request in which only the URL is set (every other field of the option
  struct has its zero value), the body built for it is the map with the single key
  \<^verbatim>\<open>url\<close>, bound to the URL: no other key is present and nothing is bound to nil, so
  the body determines a request with only the URL. This holds for screenshots and PDFs.
\<close>

theorem url_only_body:
  "buildScreenshotRequest (zeroScreenshotOptions\<lparr>URL := u\<rparr>) = [''url'' \<mapsto> AString u]
   \<and> dom (buildScreenshotRequest (zeroScreenshotOptions\<lparr>URL := u\<rparr>)) = {''url''}
   \<and> buildPDFRequest (zeroPDFOptions\<lparr>pdf_URL := u\<rparr>) = [''url'' \<mapsto> AString u]
   \<and> dom (buildPDFRequest (zeroPDFOptions\<lparr>pdf_URL := u\<rparr>)) = {''url''}"
  by (simp add: buildScreenshotRequest_def buildPDFRequest_def zeroScreenshotOptions_def
      zeroPDFOptions_def f_gt_def f_ne_def)

subsection \<open>Encoding the request bodies\<close>

lemma optMarshals_simps [simp]:
  "optMarshals None = True"
  "optMarshals (Some v) = anyMarshals v"
  "optMarshals (if b then x else y) = (if b then optMarshals x else optMarshals y)"
  "optMarshals (case o1 of None \<Rightarrow> x | Some z \<Rightarrow> g z)
     = (case o1 of None \<Rightarrow> optMarshals x | Some z \<Rightarrow> optMarshals (g z))"
  by (simp_all add: optMarshals_def split: option.splits)

lemma jsonMarshals_iff: "jsonMarshals m = (\<forall>k. optMarshals (m k))"
  by (simp add: jsonMarshals_def optMarshals_def split: option.splits)

lemma jsonMarshals_upd:
  assumes "m k = None"
  shows "jsonMarshals (m(k := xo)) = (optMarshals xo \<and> jsonMarshals m)"
proof
  assume a: "jsonMarshals (m(k := xo))"
  have "optMarshals xo"
    using a[unfolded jsonMarshals_iff, THEN spec, of k] by simp
  moreover have "optMarshals (m k')" for k'
    using a[unfolded jsonMarshals_iff, THEN spec, of k'] assms by (cases "k' = k") simp_all
  ultimately show "optMarshals xo \<and> jsonMarshals m"
    by (simp add: jsonMarshals_iff)
next
  assume "optMarshals xo \<and> jsonMarshals m"
  then show "jsonMarshals (m(k := xo))"
    by (simp add: jsonMarshals_iff)
qed

lemma anyMarshals_AMap: "anyMarshals (AMap m) = jsonMarshals m"
  by (simp add: jsonMarshals_def)

text \<open>A conditional assignment to a key, as an update of that key alone.\<close>

lemma upd_if: "(if b then m(k \<mapsto> v) else m) = m(k := if b then Some v else m k)"
  by auto

lemma upd_case:
  "(case x of None \<Rightarrow> m | Some y \<Rightarrow> m(k := g y)) = m(k := case x of None \<Rightarrow> m k | Some y \<Rightarrow> g y)"
  by (cases x) auto

lemma case_True: "(case x of None \<Rightarrow> True | Some y \<Rightarrow> True) = True"
  by (cases x) simp_all

lemma buildViewport_marshals: "jsonMarshals (buildViewport vp)"
  by (simp add: buildViewport_def Let_def upd_if jsonMarshals_upd)

lemma buildWebhook_marshals: "jsonMarshals (buildWebhook wh)"
  by (simp add: buildWebhook_def Let_def upd_if jsonMarshals_upd)


text \<open>
  The body of a screenshot request can be encoded unless it holds a device scale factor
  that is \<open>+Inf\<close> (a NaN or a negative factor is not put into the body) or a cookie whose
  expiry cannot be encoded; the body of a PDF request unless it holds a scale that is not
  finite or such a cookie.
\<close>

lemma screenshot_body_marshals:
  "jsonMarshals (buildScreenshotRequest v)
     = (DeviceScaleFactor v \<noteq> PosInf \<and> list_all cookieMarshals (Cookies v))"
proof -
  have "jsonMarshals (buildScreenshotRequest v)
     = ((f_gt (DeviceScaleFactor v) 0 \<longrightarrow> isFinite (DeviceScaleFactor v))
        \<and> list_all cookieMarshals (Cookies v))"
    apply (simp add: buildScreenshotRequest_def Let_def upd_if upd_case jsonMarshals_upd
        anyMarshals_AMap buildViewport_marshals buildWebhook_marshals case_True
        del: anyMarshals.simps(6) split del: if_split cong: if_cong option.case_cong)
    apply (cases "Cookies v"; auto)
    done
  moreover have "(f_gt x 0 \<longrightarrow> isFinite x) = (x \<noteq> PosInf)" for x
    by (cases x) (simp_all add: f_gt_def isFinite_def)
  ultimately show ?thesis by simp
qed


subsection \<open>Local validation\<close>













lemma missing_url_screenshot:
  assumes "opts = None \<or> (\<exists>v. opts = Some v \<and> URL v = [])"
  shows "Screenshot c env opts = (Returns (None, Some ErrMissingURL), c, noTrace)"
    and "ScreenshotAsync c env opts = (Returns ([], Some ErrMissingURL), c, noTrace)"
  using assms
  by (auto simp: Screenshot_def ScreenshotAsync_def ValidateScreenshotOptions_def)

lemma missing_url_pdf:
  assumes "opts = None \<or> (\<exists>v. opts = Some v \<and> pdf_URL v = [])"
  shows "PDF c env opts = (Returns (None, Some ErrMissingURL), c, noTrace)"
    and "PDFAsync c env opts = (Returns ([], Some ErrMissingURL), c, noTrace)"
  using assms
  by (auto simp: PDF_def PDFAsync_def ValidatePDFOptions_def)

lemma missing_webhook_screenshot:
  assumes "Webhook v = None \<or> (\<exists>wh. Webhook v = Some wh \<and> wh_URL wh = [])"
  shows "\<exists>err. ScreenshotAsync c env (Some v) = (Returns ([], Some err), c, noTrace)
           \<and> (ValidateScreenshotOptions (Some v) = None \<longrightarrow> err = webhookRequired)"
  using assms
  by (auto simp: ScreenshotAsync_def split: option.splits)

lemma missing_webhook_pdf:
  assumes "pdf_Webhook v = None \<or> (\<exists>wh. pdf_Webhook v = Some wh \<and> wh_URL wh = [])"
  shows "\<exists>err. PDFAsync c env (Some v) = (Returns ([], Some err), c, noTrace)
           \<and> (ValidatePDFOptions (Some v) = None \<longrightarrow> err = webhookRequired)"
  using assms
  by (auto simp: PDFAsync_def split: option.splits)

lemma webhookRequired_eq:
  "webhookRequired
     = PlainError (MkError 400 ''VALIDATION_ERROR'' ''webhook URL is required for async operations''
         None [] None)"
  by (simp add: webhookRequired_def NewValidationError_def)

text \<open>
  Claim C5, as stated, fails: a URL that is present but is no URL passes local validation
  and is sent to the server, and so is an asynchronous request whose webhook URL is no URL;
  the error for a missing URL is the value \<^verbatim>\<open>ErrMissingURL\<close>, made by
  \<^verbatim>\<open>errors.New\<close>, which is no \<^verbatim>\<open>ValidationError\<close> (\<^verbatim>\<open>IsValidationError\<close> does
  not return true for it: it panics).
\<close>

theorem malformed_url_is_sent:
  "calls (snd (snd (Screenshot (New ''key'' []) (always (respond 200 textBody))
       (Some (zeroScreenshotOptions\<lparr>URL := ''not-a-url''\<rparr>))))) = 1
   \<and> calls (snd (snd (ScreenshotAsync (New ''key'' []) (always (respond 200 textBody))
       (Some (zeroScreenshotOptions\<lparr>URL := ''https://example.com'',
          Webhook := Some badWebhook\<rparr>))))) = 1
   \<and> ValidateScreenshotOptions (Some (zeroScreenshotOptions\<lparr>URL := ''not-a-url''\<rparr>)) = None
   \<and> ErrMissingURL = ErrorString ''screencraft: URL is required''
   \<and> IsValidationError (Some ErrMissingURL) = Panics targetPanic
   \<and> Screenshot (New ''key'' []) (always (respond 200 textBody)) (Some zeroScreenshotOptions)
       = (Returns (None, Some (ErrorString ''screencraft: URL is required'')), New ''key'' [], noTrace)"
  by (simp add: Screenshot_def ScreenshotAsync_def ValidateScreenshotOptions_def
      zeroScreenshotOptions_def badWebhook_def doRequest_def screenshot_body_marshals doLoop.simps
      New_def noTrace_def waitBeforeRetry_def sendOnce_def always_def respond_def textBody_def
      DefaultMaxRetries_def ErrMissingURL_def IsValidationError_def andThen_def)

text \<open>
  Claim C5, amended. A request whose URL is missing (nil options or an empty URL) fails
  with \<^verbatim>\<open>ErrMissingURL\<close>, in the synchronous and the asynchronous operations; an
  asynchronous request whose webhook is missing or has an empty URL fails as well, and
  when the other checks pass its error is the \<^verbatim>\<open>*Error\<close> with status 400 and code
  \<^verbatim>\<open>VALIDATION_ERROR\<close>. In each case the client is unchanged and the trace is empty:
  nothing was sent.
\<close>

theorem missing_fields_fail_locally:
  "(opts = None \<or> (\<exists>v. opts = Some v \<and> URL v = []) \<longrightarrow>
      Screenshot c env opts = (Returns (None, Some ErrMissingURL), c, noTrace)
      \<and> ScreenshotAsync c env opts = (Returns ([], Some ErrMissingURL), c, noTrace))
   \<and> (popts = None \<or> (\<exists>v. popts = Some v \<and> pdf_URL v = []) \<longrightarrow>
      PDF c env popts = (Returns (None, Some ErrMissingURL), c, noTrace)
      \<and> PDFAsync c env popts = (Returns ([], Some ErrMissingURL), c, noTrace))
   \<and> (Webhook sv = None \<or> (\<exists>wh. Webhook sv = Some wh \<and> wh_URL wh = []) \<longrightarrow>
      (\<exists>err. ScreenshotAsync c env (Some sv) = (Returns ([], Some err), c, noTrace)
         \<and> (ValidateScreenshotOptions (Some sv) = None \<longrightarrow> err = webhookRequired)))
   \<and> (pdf_Webhook pv = None \<or> (\<exists>wh. pdf_Webhook pv = Some wh \<and> wh_URL wh = []) \<longrightarrow>
      (\<exists>err. PDFAsync c env (Some pv) = (Returns ([], Some err), c, noTrace)
         \<and> (ValidatePDFOptions (Some pv) = None \<longrightarrow> err = webhookRequired)))
   \<and> webhookRequired
       = PlainError (MkError 400 ''VALIDATION_ERROR''
           ''webhook URL is required for async operations'' None [] None)
   \<and> calls noTrace = 0"
proof (intro conjI impI)
  assume h: "opts = None \<or> (\<exists>v. opts = Some v \<and> URL v = [])"
  show "Screenshot c env opts = (Returns (None, Some ErrMissingURL), c, noTrace)"
    using h by (rule missing_url_screenshot(1))
  show "ScreenshotAsync c env opts = (Returns ([], Some ErrMissingURL), c, noTrace)"
    using h by (rule missing_url_screenshot(2))
next
  assume h: "popts = None \<or> (\<exists>v. popts = Some v \<and> pdf_URL v = [])"
  show "PDF c env popts = (Returns (None, Some ErrMissingURL), c, noTrace)"
    using h by (rule missing_url_pdf(1))
  show "PDFAsync c env popts = (Returns ([], Some ErrMissingURL), c, noTrace)"
    using h by (rule missing_url_pdf(2))
next
  assume "Webhook sv = None \<or> (\<exists>wh. Webhook sv = Some wh \<and> wh_URL wh = [])"
  then show "\<exists>err. ScreenshotAsync c env (Some sv) = (Returns ([], Some err), c, noTrace)
         \<and> (ValidateScreenshotOptions (Some sv) = None \<longrightarrow> err = webhookRequired)"
    by (rule missing_webhook_screenshot)
next
  assume "pdf_Webhook pv = None \<or> (\<exists>wh. pdf_Webhook pv = Some wh \<and> wh_URL wh = [])"
  then show "\<exists>err. PDFAsync c env (Some pv) = (Returns ([], Some err), c, noTrace)
         \<and> (ValidatePDFOptions (Some pv) = None \<longrightarrow> err = webhookRequired)"
    by (rule missing_webhook_pdf)
next
  show "webhookRequired
       = PlainError (MkError 400 ''VALIDATION_ERROR''
           ''webhook URL is required for async operations'' None [] None)"
    by (rule webhookRequired_eq)
  show "calls noTrace = 0"
    by (simp add: noTrace_def)
qed


theorem missing_fields_fail_locally_witness:
  "URL zeroScreenshotOptions = [] \<and> pdf_URL zeroPDFOptions = []
   \<and> Webhook (zeroScreenshotOptions\<lparr>URL := ''https://example.com''\<rparr>) = None
   \<and> ValidateScreenshotOptions (Some (zeroScreenshotOptions\<lparr>URL := ''https://example.com''\<rparr>))
       = None
   \<and> Screenshot (New ''key'' []) (always (respond 200 textBody)) (Some zeroScreenshotOptions)
       = (Returns (None, Some ErrMissingURL), New ''key'' [], noTrace)
   \<and> PDFAsync (New ''key'' []) (always (respond 200 textBody)) (Some zeroPDFOptions)
       = (Returns ([], Some ErrMissingURL), New ''key'' [], noTrace)
   \<and> ScreenshotAsync (New ''key'' []) (always (respond 200 textBody))
        (Some (zeroScreenshotOptions\<lparr>URL := ''https://example.com''\<rparr>))
       = (Returns ([], Some webhookRequired), New ''key'' [], noTrace)"
proof -
  define c where "c = New ''key'' []"
  define env where "env = always (respond 200 textBody)"
  define sv where "sv = zeroScreenshotOptions\<lparr>URL := ''https://example.com''\<rparr>"
  note T = missing_fields_fail_locally[where c = c and env = env
      and opts = "Some zeroScreenshotOptions" and popts = "Some zeroPDFOptions" and sv = sv
      and pv = zeroPDFOptions]
  have a1: "URL zeroScreenshotOptions = []"
    by (simp add: zeroScreenshotOptions_def)
  have a2: "pdf_URL zeroPDFOptions = []"
    by (simp add: zeroPDFOptions_def)
  have a3: "Webhook sv = None"
    by (simp add: sv_def zeroScreenshotOptions_def)
  have v: "ValidateScreenshotOptions (Some sv) = None"
    by (simp add: sv_def ValidateScreenshotOptions_def zeroScreenshotOptions_def)
  have h1: "Some zeroScreenshotOptions = None
      \<or> (\<exists>v. Some zeroScreenshotOptions = Some v \<and> URL v = [])"
    using a1 by simp
  have h2: "Some zeroPDFOptions = None \<or> (\<exists>v. Some zeroPDFOptions = Some v \<and> pdf_URL v = [])"
    using a2 by simp
  have h3: "Webhook sv = None \<or> (\<exists>wh. Webhook sv = Some wh \<and> wh_URL wh = [])"
    using a3 by simp
  have r1: "Screenshot c env (Some zeroScreenshotOptions) = (Returns (None, Some ErrMissingURL), c, noTrace)"
    using T[THEN conjunct1, THEN mp, OF h1] by (rule conjunct1)
  have r2: "PDFAsync c env (Some zeroPDFOptions) = (Returns ([], Some ErrMissingURL), c, noTrace)"
    using T[THEN conjunct2, THEN conjunct1, THEN mp, OF h2] by (rule conjunct2)
  have "\<exists>err. ScreenshotAsync c env (Some sv) = (Returns ([], Some err), c, noTrace)
         \<and> (ValidateScreenshotOptions (Some sv) = None \<longrightarrow> err = webhookRequired)"
    using T[THEN conjunct2, THEN conjunct2, THEN conjunct1, THEN mp, OF h3] .
  then obtain err where ee: "ScreenshotAsync c env (Some sv) = (Returns ([], Some err), c, noTrace)
         \<and> (ValidateScreenshotOptions (Some sv) = None \<longrightarrow> err = webhookRequired)" ..
  have "err = webhookRequired"
    using ee[THEN conjunct2, THEN mp, OF v] .
  then have r3: "ScreenshotAsync c env (Some sv) = (Returns ([], Some webhookRequired), c, noTrace)"
    using ee[THEN conjunct1] by (rule subst)
  show ?thesis
    using a1 a2 a3 v r1 r2 r3 unfolding c_def env_def sv_def by (intro conjI) assumption+
qed

subsection \<open>Classification by status code\<close>

lemma parseErrorResponse_408:
  "r_StatusCode resp = 408 \<Longrightarrow>
     \<exists>e. parseErrorResponse resp = Returns (PlainError e) \<and> StatusCode e = 408"
  by (simp add: parseErrorResponse_def Let_def split: body.splits option.splits)

lemma not_retryable_408:
  "StatusCode e = 408 \<Longrightarrow> IsRetryable (Some (PlainError e)) = Returns False"
  by (simp add: Error_IsRetryable_def)

lemma sendOnce_not_retryable:
  assumes "newRequestErr env = None" "httpDo env (nat attempt) = DoResponse resp"
    "r_StatusCode resp \<ge> 400" "parseErrorResponse resp = Returns lastErr"
    "IsRetryable (Some lastErr) = Returns False"
  shows "sendOnce c env attempt tr
           = Return (Returns (None, Some lastErr)) (parseRateLimitHeaders c resp)
               (tr\<lparr>calls := Suc (calls tr)\<rparr>)"
  using assms by (simp add: sendOnce_def Let_def)

text \<open>
  Claim C4, as stated, fails: a 408 response is not retried. In the Go client, with the
  default three retries, the call ends after one send with a plain \<^verbatim>\<open>*Error\<close> of status
  408, which is not retryable and, being a \<^verbatim>\<open>*Error\<close>, is no \<^verbatim>\<open>TimeoutError\<close>
  (\<^verbatim>\<open>IsTimeoutError\<close> does not return true for it: it panics); in the Node client
  \<^verbatim>\<open>shouldRetry\<close> is false for status 408 on the first attempt.
\<close>

theorem status_408_claim_fails:
  "calls (snd (snd (doRequest (New ''key'' []) (always (respond 408 jsonErrorBody)) Map.empty))) = 1
   \<and> fst (doRequest (New ''key'' []) (always (respond 408 jsonErrorBody)) Map.empty)
       = Returns (None, Some (PlainError (MkError 408 [] [] None [] None)))
   \<and> maxRetries (New ''key'' []) = 3
   \<and> parseErrorResponse (respond 408 jsonErrorBody)
       = Returns (PlainError (MkError 408 [] [] None [] None))
   \<and> IsRetryable (Some (PlainError (MkError 408 [] [] None [] None))) = Returns False
   \<and> IsTimeoutError (Some (PlainError (MkError 408 [] [] None [] None))) = Panics targetPanic
   \<and> \<not> shouldRetry 3 (AxiosError (Some 408) None) 0
   \<and> executeWithRetry 3 (\<lambda>k. Inl (AxiosError (Some 408) None) :: thrown + string) 0
       = (Inl TS_TimeoutError, 1)"
  by (simp add: run_defs IsTimeoutError_def andThen_def shouldRetry_def executeWithRetry.simps
      handleError_def createErrorFromResponse_def)

text \<open>
  Claim C4, amended. For a 408 response the Node error factory constructs a
  \<^verbatim>\<open>TimeoutError\<close>, and the error is not retryable: \<^verbatim>\<open>shouldRetry\<close> of the Node client
  is false for it at every attempt and every configuration, so \<^verbatim>\<open>executeWithRetry\<close>
  rejects with the \<^verbatim>\<open>TimeoutError\<close> on the attempt that received the response.
  In the Go client the error classified from a 408 response is a plain \<^verbatim>\<open>*Error\<close> of
  status 408, \<^verbatim>\<open>IsRetryable\<close> is false for it, and the retry loop returns that error on
  the attempt that received the response, whatever \<^verbatim>\<open>maxRetries\<close> is.
\<close>

theorem status_408_not_retried:
  "createErrorFromResponse 408 = TS_TimeoutError
   \<and> shouldRetry configMaxRetries (AxiosError (Some 408) code) n = False
   \<and> (fn (nat n) = Inl (AxiosError (Some 408) code) \<longrightarrow>
        executeWithRetry configMaxRetries fn n = (Inl TS_TimeoutError, 1))
   \<and> (r_StatusCode resp = 408 \<longrightarrow>
        (\<exists>e. parseErrorResponse resp = Returns (PlainError e) \<and> StatusCode e = 408
           \<and> IsRetryable (Some (PlainError e)) = Returns False))
   \<and> (newRequestErr env = None \<and> httpDo env (nat attempt) = DoResponse resp
        \<and> r_StatusCode resp = 408 \<longrightarrow>
        (\<exists>e. parseErrorResponse resp = Returns (PlainError e)
           \<and> sendOnce c env attempt tr
               = Return (Returns (None, Some (PlainError e))) (parseRateLimitHeaders c resp)
                   (tr\<lparr>calls := Suc (calls tr)\<rparr>)))"
proof (intro conjI impI)
  show "createErrorFromResponse 408 = TS_TimeoutError"
    by (simp add: createErrorFromResponse_def)
  show "shouldRetry configMaxRetries (AxiosError (Some 408) code) n = False"
    by (simp add: shouldRetry_def)
next
  assume "fn (nat n) = Inl (AxiosError (Some 408) code)"
  then show "executeWithRetry configMaxRetries fn n = (Inl TS_TimeoutError, 1)"
    by (subst executeWithRetry.simps)
       (simp add: shouldRetry_def handleError_def createErrorFromResponse_def)
next
  assume "r_StatusCode resp = 408"
  then obtain e where "parseErrorResponse resp = Returns (PlainError e)" "StatusCode e = 408"
    using parseErrorResponse_408 by blast
  then show "\<exists>e. parseErrorResponse resp = Returns (PlainError e) \<and> StatusCode e = 408
           \<and> IsRetryable (Some (PlainError e)) = Returns False"
    using not_retryable_408 by blast
next
  assume h: "newRequestErr env = None \<and> httpDo env (nat attempt) = DoResponse resp
        \<and> r_StatusCode resp = 408"
  then obtain e where e: "parseErrorResponse resp = Returns (PlainError e)" "StatusCode e = 408"
    using parseErrorResponse_408 by blast
  have "sendOnce c env attempt tr
               = Return (Returns (None, Some (PlainError e))) (parseRateLimitHeaders c resp)
                   (tr\<lparr>calls := Suc (calls tr)\<rparr>)"
    using h e sendOnce_not_retryable[of env attempt resp "PlainError e" c tr] not_retryable_408[of e]
    by simp
  then show "\<exists>e. parseErrorResponse resp = Returns (PlainError e)
           \<and> sendOnce c env attempt tr
               = Return (Returns (None, Some (PlainError e))) (parseRateLimitHeaders c resp)
                   (tr\<lparr>calls := Suc (calls tr)\<rparr>)"
    using e(1) by blast
qed

theorem status_408_not_retried_witness:
  "r_StatusCode (respond 408 jsonErrorBody) = 408
   \<and> newRequestErr (always (respond 408 jsonErrorBody)) = None
   \<and> httpDo (always (respond 408 jsonErrorBody)) (nat 0) = DoResponse (respond 408 jsonErrorBody)
   \<and> parseErrorResponse (respond 408 jsonErrorBody)
       = Returns (PlainError (MkError 408 [] [] None [] None))
   \<and> IsRetryable (Some (PlainError (MkError 408 [] [] None [] None))) = Returns False
   \<and> sendOnce (New ''key'' []) (always (respond 408 jsonErrorBody)) 0 noTrace
       = Return (Returns (None, Some (PlainError (MkError 408 [] [] None [] None)))) (New ''key'' [])
           \<lparr>calls = 1, waits = []\<rparr>
   \<and> executeWithRetry 5 (\<lambda>k. Inl (AxiosError (Some 408) None) :: thrown + string) 2
       = (Inl TS_TimeoutError, 1)"
proof -
  note T = status_408_not_retried[where resp = "respond 408 jsonErrorBody"
      and env = "always (respond 408 jsonErrorBody)" and attempt = 0 and c = "New ''key'' []"
      and tr = noTrace and fn = "\<lambda>k. Inl (AxiosError (Some 408) None) :: thrown + string"
      and n = 2 and code = None and configMaxRetries = 5]
  have s: "r_StatusCode (respond 408 jsonErrorBody) = 408"
    by (simp add: respond_def)
  have h: "newRequestErr (always (respond 408 jsonErrorBody)) = None
      \<and> httpDo (always (respond 408 jsonErrorBody)) (nat 0) = DoResponse (respond 408 jsonErrorBody)
      \<and> r_StatusCode (respond 408 jsonErrorBody) = 408"
    by (simp add: always_def respond_def)
  have p: "parseErrorResponse (respond 408 jsonErrorBody)
      = Returns (PlainError (MkError 408 [] [] None [] None))"
    by (simp add: parseErrorResponse_def respond_def jsonErrorBody_def Header_Get_def)
  have "\<exists>e. parseErrorResponse (respond 408 jsonErrorBody) = Returns (PlainError e)
           \<and> StatusCode e = 408 \<and> IsRetryable (Some (PlainError e)) = Returns False"
    using T[THEN conjunct2, THEN conjunct2, THEN conjunct2, THEN conjunct1, THEN mp, OF s] .
  then obtain e where e: "parseErrorResponse (respond 408 jsonErrorBody) = Returns (PlainError e)
           \<and> StatusCode e = 408 \<and> IsRetryable (Some (PlainError e)) = Returns False" ..
  have "e = MkError 408 [] [] None [] None"
    using e[THEN conjunct1] p by simp
  then have n: "IsRetryable (Some (PlainError (MkError 408 [] [] None [] None))) = Returns False"
    using e[THEN conjunct2, THEN conjunct2] by simp
  have x: "executeWithRetry 5 (\<lambda>k. Inl (AxiosError (Some 408) None) :: thrown + string) 2
       = (Inl TS_TimeoutError, 1)"
    using T[THEN conjunct2, THEN conjunct2, THEN conjunct1, THEN mp] by simp
  have "\<exists>e. parseErrorResponse (respond 408 jsonErrorBody) = Returns (PlainError e)
           \<and> sendOnce (New ''key'' []) (always (respond 408 jsonErrorBody)) 0 noTrace
               = Return (Returns (None, Some (PlainError e)))
                   (parseRateLimitHeaders (New ''key'' []) (respond 408 jsonErrorBody))
                   (noTrace\<lparr>calls := Suc (calls noTrace)\<rparr>)"
    using T[THEN conjunct2, THEN conjunct2, THEN conjunct2, THEN conjunct2, THEN mp, OF h] .
  then obtain e' where e': "parseErrorResponse (respond 408 jsonErrorBody) = Returns (PlainError e')
           \<and> sendOnce (New ''key'' []) (always (respond 408 jsonErrorBody)) 0 noTrace
               = Return (Returns (None, Some (PlainError e')))
                   (parseRateLimitHeaders (New ''key'' []) (respond 408 jsonErrorBody))
                   (noTrace\<lparr>calls := Suc (calls noTrace)\<rparr>)" ..
  have q: "e' = MkError 408 [] [] None [] None"
    using e'[THEN conjunct1] p by simp
  have c: "parseRateLimitHeaders (New ''key'' []) (respond 408 jsonErrorBody) = New ''key'' []"
    by (simp add: parseRateLimitHeaders_def respond_def Header_Get_def Atoi_def ParseInt_def)
  have t: "noTrace\<lparr>calls := Suc (calls noTrace)\<rparr> = \<lparr>calls = 1, waits = []\<rparr>"
    by (simp add: noTrace_def)
  have r: "sendOnce (New ''key'' []) (always (respond 408 jsonErrorBody)) 0 noTrace
       = Return (Returns (None, Some (PlainError (MkError 408 [] [] None [] None)))) (New ''key'' [])
           \<lparr>calls = 1, waits = []\<rparr>"
    using e'[THEN conjunct2] unfolding q c t .
  show ?thesis
    using s h p n r x by (intro conjI) (elim conjE, assumption)+
qed

text \<open>
  Claim C6 (the code departs from it). The claim: a 401 or 403 response is classified as
  an Authentication error and ends the call without a retry. Neither status is retried in
  the Go source, but neither yields an Authentication error. For a 403 response the switch
  of \<^verbatim>\<open>parseErrorResponse\<close> has no case, so the result is a plain \<^verbatim>\<open>*Error\<close> of status
  403. For a 401 response with a JSON body the switch reaches
  \<^verbatim>\<open>return &AuthenticationError{Error: baseErr}\<close>, which does not type-check; with a body
  that is no JSON the result is a plain \<^verbatim>\<open>*Error\<close> of status 401. On each of these
  errors \<^verbatim>\<open>IsAuthenticationError\<close> panics. The Node factory returns an
  \<^verbatim>\<open>AuthenticationError\<close> for 401 and for 403, and the Node client does not retry it.
\<close>

theorem forbidden_not_authentication:
  "doRequest (New ''key'' []) (always (respond 403 jsonErrorBody)) Map.empty
     = (Returns (None, Some (PlainError (MkError 403 [] [] None [] None))), New ''key'' [],
        \<lparr>calls = 1, waits = []\<rparr>)
   \<and> doRequest (New ''key'' []) (always (respond 401 textBody)) Map.empty
     = (Returns (None, Some (PlainError (MkError 401 [] ''upstream error'' None [] None))),
        New ''key'' [], \<lparr>calls = 1, waits = []\<rparr>)
   \<and> doRequest (New ''key'' []) (always (respond 401 jsonErrorBody)) Map.empty
     = (IllTyped (AuthenticationError (MkError 401 [] [] None [] None)), New ''key'' [],
        \<lparr>calls = 1, waits = []\<rparr>)
   \<and> IsAuthenticationError (Some (PlainError (MkError 403 [] [] None [] None))) = Panics targetPanic
   \<and> IsAuthenticationError (Some err) = Panics targetPanic
   \<and> createErrorFromResponse 403 = TS_AuthenticationError
   \<and> createErrorFromResponse 401 = TS_AuthenticationError
   \<and> executeWithRetry 3 (\<lambda>k. Inl (AxiosError (Some 403) None) :: thrown + string) 0
       = (Inl TS_AuthenticationError, 1)"
  by (simp add: run_defs IsAuthenticationError_def andThen_def createErrorFromResponse_def
      executeWithRetry.simps shouldRetry_def handleError_def)

subsection \<open>Further properties of the retry loop\<close>

text \<open>
  What a call of \<open>doRequest\<close> with a key, a body that can be encoded and
  \<open>maxRetries \<ge> 0\<close> does with the answer to its one send: a response of status below 400
  is returned; a response of status \<open>\<ge> 400\<close> that is classified as a plain \<^verbatim>\<open>*Error\<close>
  is returned as that error when its status is not retryable or no retry is configured,
  and otherwise the call panics at the start of the retry.
\<close>

lemma doRequest_one_send:
  assumes "apiKey c \<noteq> []" "jsonMarshals body" "0 \<le> maxRetries c" "newRequestErr env = None"
    "httpDo env 0 = DoResponse resp"
  shows "r_StatusCode resp < 400 \<Longrightarrow>
           doRequest c env body
             = (Returns (Some resp, None), parseRateLimitHeaders c resp, \<lparr>calls = 1, waits = []\<rparr>)"
    and "r_StatusCode resp \<ge> 400 \<Longrightarrow> parseErrorResponse resp = Returns (PlainError e) \<Longrightarrow>
           doRequest c env body
             = (if Error_IsRetryable e \<and> maxRetries c \<noteq> 0 then Panics targetPanic
                else Returns (None, Some (PlainError e)),
                parseRateLimitHeaders c resp, \<lparr>calls = 1, waits = []\<rparr>)"
proof -
  assume "r_StatusCode resp < 400"
  then show "doRequest c env body
             = (Returns (Some resp, None), parseRateLimitHeaders c resp, \<lparr>calls = 1, waits = []\<rparr>)"
    using assms
    by (simp add: doRequest_def doLoop.simps waitBeforeRetry_def sendOnce_def noTrace_def Let_def)
next
  assume "r_StatusCode resp \<ge> 400" "parseErrorResponse resp = Returns (PlainError e)"
  then show "doRequest c env body
             = (if Error_IsRetryable e \<and> maxRetries c \<noteq> 0 then Panics targetPanic
                else Returns (None, Some (PlainError e)),
                parseRateLimitHeaders c resp, \<lparr>calls = 1, waits = []\<rparr>)"
    using assms doLoop_failed_response[of c env resp e noTrace]
    by (simp add: doRequest_def noTrace_def)
qed

text \<open>
  The \<^verbatim>\<open>select\<close> of the loop returns \<^verbatim>\<open>ctx.Err()\<close> when it is reached with a context
  that is done; it is reached only when \<^verbatim>\<open>calculateBackoff\<close> returns, that is for a nil
  \<^verbatim>\<open>lastErr\<close>, which the loop never has in an iteration after the first.
\<close>

lemma select_returns_context_error:
  assumes "0 < attempt" "ctxDone env (nat attempt) = Some cause"
  shows "fst (waitBeforeRetry c env attempt None tr) = Returns (Some (ErrorString cause))"
  using assms
  by (simp add: waitBeforeRetry_def calculateBackoff_def andThen_def Let_def)


end
